theory Spec2Isabelle
  imports Main
begin

section \<open>The MusicXML backend of VexFlow (src/musicxml.js)\<close>

text \<open>
  A shallow embedding of \<^verbatim>\<open>Vex.Flow.Backend.MusicXML\<close>: the DOM it reads, the
  JavaScript values it stores, and its functions \<^verbatim>\<open>parse\<close>, \<^verbatim>\<open>parseAttributes\<close>,
  \<^verbatim>\<open>getAttributes\<close>, \<^verbatim>\<open>parseNote\<close> and \<^verbatim>\<open>getMeasure\<close>. An exception is a value
  \<open>Inl e\<close> of the result type \<open>error + 'a\<close>; the object's fields are a record that each
  function takes and returns.
\<close>

subsection \<open>The DOM\<close>

text \<open>
  An element has a tag name, attributes and child nodes; a text node has its characters.
  \<^verbatim>\<open>childNodes\<close> holds text nodes too (the white space between elements), which matters
  wherever the source indexes \<^verbatim>\<open>childNodes\<close>. Comments and processing instructions
  are left out.
\<close>

datatype node =
  Element string "(string \<times> string) list" "node list"
| Text string

fun nodeName :: "node \<Rightarrow> string" where
  "nodeName (Element n as cs) = n"
| "nodeName (Text s) = ''#text''"

fun childNodes :: "node \<Rightarrow> node list" where
  "childNodes (Element n as cs) = cs"
| "childNodes (Text s) = []"

fun textContent :: "node \<Rightarrow> string" where
  "textContent (Text s) = s"
| "textContent (Element n as cs) = concat (map textContent cs)"

text \<open>All descendants of a node, in document order (the node itself is not one).\<close>

fun descendants :: "node \<Rightarrow> node list" where
  "descendants (Text s) = []"
| "descendants (Element n as cs) = concat (map (\<lambda>c. c # descendants c) cs)"

definition getElementsByTagName :: "string \<Rightarrow> node \<Rightarrow> node list" where
  "getElementsByTagName name e = filter (\<lambda>d. nodeName d = name) (descendants e)"

text \<open>\<^verbatim>\<open>e.getElementsByTagName(name)[0]\<close>: \<open>None\<close> is JavaScript's \<^verbatim>\<open>undefined\<close>.\<close>

definition firstByTagName :: "string \<Rightarrow> node \<Rightarrow> node option" where
  "firstByTagName name e =
     (case getElementsByTagName name e of [] \<Rightarrow> None | d # ds \<Rightarrow> Some d)"

text \<open>\<^verbatim>\<open>e.getAttribute(name)\<close>: \<open>None\<close> is \<^verbatim>\<open>null\<close>, the attribute is absent.\<close>

fun getAttribute :: "node \<Rightarrow> string \<Rightarrow> string option" where
  "getAttribute (Element n as cs) name = map_of as name"
| "getAttribute (Text s) name = None"

subsection \<open>JavaScript values\<close>

text \<open>
  Every number of this file comes from \<^verbatim>\<open>parseInt\<close> or from integer arithmetic on such
  numbers, so a number is an integer or \<^verbatim>\<open>NaN\<close> (integers beyond \<open>2^53\<close> are not
  rounded here).
\<close>

datatype jsnum = NaN | Num int

datatype jsval =
  Undefined
| Null
| Number jsnum
| String string
| Array "jsval list"
| Object "(string \<times> jsval) list"
| Elem node

datatype error =
  TypeError string
| RangeError string
| RuntimeError string string

text \<open>\<^verbatim>\<open>a * b\<close> on numbers.\<close>

fun times_num :: "jsnum \<Rightarrow> jsnum \<Rightarrow> jsnum" where
  "times_num (Num a) (Num b) = Num (a * b)"
| "times_num a b = NaN"

text \<open>The truth value of a value in a condition (\<^verbatim>\<open>if (v)\<close>, \<^verbatim>\<open>a && b\<close>, \<^verbatim>\<open>! v\<close>).\<close>

fun truthy :: "jsval \<Rightarrow> bool" where
  "truthy Undefined = False"
| "truthy Null = False"
| "truthy (Number NaN) = False"
| "truthy (Number (Num n)) = (n \<noteq> 0)"
| "truthy (String s) = (s \<noteq> [])"
| "truthy (Array xs) = True"
| "truthy (Object fs) = True"
| "truthy (Elem e) = True"

text \<open>
  \<^verbatim>\<open>isNaN(v)\<close> for the values that reach it (numbers, \<^verbatim>\<open>undefined\<close>, \<^verbatim>\<open>null\<close>);
  an object, and here every other value, converts to \<^verbatim>\<open>NaN\<close>.
\<close>

fun isNaN :: "jsval \<Rightarrow> bool" where
  "isNaN (Number (Num n)) = False"
| "isNaN Null = False"
| "isNaN v = True"

subsection \<open>\<^verbatim>\<open>parseInt\<close> and \<^verbatim>\<open>Number.prototype.toString\<close>\<close>

definition isWhiteSpace :: "char \<Rightarrow> bool" where
  "isWhiteSpace c =
     (c = CHR '' '' \<or> c = CHR 0x09 \<or> c = CHR 0x0A \<or> c = CHR 0x0B \<or> c = CHR 0x0C
      \<or> c = CHR 0x0D)"

text \<open>The position of a character in a string, when it occurs there.\<close>

definition positionIn :: "string \<Rightarrow> char \<Rightarrow> nat option" where
  "positionIn ds c =
     (if c \<in> set ds then Some (length (takeWhile (\<lambda>d. d \<noteq> c) ds)) else None)"

text \<open>The value of a digit, in either case of the letters.\<close>

definition digitValue :: "char \<Rightarrow> nat option" where
  "digitValue c =
    (case positionIn ''0123456789abcdef'' c of
       Some d \<Rightarrow> Some d
     | None \<Rightarrow> positionIn ''0123456789ABCDEF'' c)"

definition isDigit :: "nat \<Rightarrow> char \<Rightarrow> bool" where
  "isDigit radix c = (case digitValue c of None \<Rightarrow> False | Some d \<Rightarrow> d < radix)"

definition digitsValue :: "nat \<Rightarrow> string \<Rightarrow> nat" where
  "digitsValue radix ds =
     foldl (\<lambda>acc c. acc * radix + (case digitValue c of None \<Rightarrow> 0 | Some d \<Rightarrow> d)) 0 ds"

text \<open>
  \<^verbatim>\<open>parseInt(s)\<close> with no radix: leading white space is skipped, then an optional sign,
  then an optional \<^verbatim>\<open>0x\<close> (which selects radix 16), then the longest run of digits; no
  digit at all gives \<^verbatim>\<open>NaN\<close>.
\<close>

definition parseInt :: "string \<Rightarrow> jsnum" where
  "parseInt s =
    (let s1 = dropWhile isWhiteSpace s;
         neg = (case s1 of [] \<Rightarrow> False | c # r \<Rightarrow> c = CHR ''-'');
         s2 = (case s1 of [] \<Rightarrow> [] | c # r \<Rightarrow> if c = CHR ''-'' \<or> c = CHR ''+'' then r else s1);
         hex = (take 2 s2 = ''0x'' \<or> take 2 s2 = ''0X'');
         radix = (if hex then 16 else 10);
         s3 = (if hex then drop 2 s2 else s2);
         ds = takeWhile (isDigit radix) s3
     in if ds = [] then NaN
        else Num ((if neg then - 1 else 1) * int (digitsValue radix ds)))"

definition digitChar :: "nat \<Rightarrow> char" where
  "digitChar d = ''0123456789'' ! d"

function natToString :: "nat \<Rightarrow> string" where
  "natToString n = (if n < 10 then [digitChar n] else natToString (n div 10) @ [digitChar (n mod 10)])"
  by pat_completeness auto
termination
  by (relation "measure (\<lambda>n. n)") auto

text \<open>\<^verbatim>\<open>n.toString()\<close> for a number.\<close>

fun numToString :: "jsnum \<Rightarrow> string" where
  "numToString NaN = ''NaN''"
| "numToString (Num i) = (if i < 0 then CHR ''-'' # natToString (nat (- i)) else natToString (nat i))"

subsection \<open>Collaborators that are not in the source file\<close>

text \<open>
  Modelled from the spec: \<^verbatim>\<open>Vex.Flow.Fraction\<close> is not in src/. The spec calls the
  type "an exact fraction (numerator, denominator)"; the constructor stores its two
  arguments.
\<close>

record fraction =
  numerator :: jsval
  denominator :: jsval

definition Fraction :: "jsval \<Rightarrow> jsval \<Rightarrow> fraction" where
  "Fraction n d = \<lparr>numerator = n, denominator = d\<rparr>"

fun toInt :: "jsval \<Rightarrow> int option" where
  "toInt (Number (Num n)) = Some n"
| "toInt v = None"

text \<open>
  Modelled from the spec: the method \<^verbatim>\<open>simplify\<close> of \<^verbatim>\<open>Vex.Flow.Fraction\<close> is not in
  src/. The spec says that the fraction is "always kept in lowest terms" and that the
  tick computation yields a numerator or denominator that "is not a number (e.g. divisions
  absent or zero)". So \<open>simplify\<close> divides both by their greatest common divisor (the
  denominator made positive) when both are numbers and the denominator is not zero, and
  yields \<^verbatim>\<open>NaN\<close> otherwise.
\<close>

definition simplify :: "fraction \<Rightarrow> fraction" where
  "simplify f =
    (case toInt (numerator f) of
       None \<Rightarrow> Fraction (Number NaN) (Number NaN)
     | Some n \<Rightarrow>
        (case toInt (denominator f) of
           None \<Rightarrow> Fraction (Number NaN) (Number NaN)
         | Some d \<Rightarrow>
            if d = 0 then Fraction (Number NaN) (Number NaN)
            else Fraction (Number (Num (sgn d * (n div gcd n d))))
                          (Number (Num (sgn d * (d div gcd n d))))))"

text \<open>
  Modelled from the spec: \<^verbatim>\<open>Vex.Assert\<close> is not in src/. The spec says of the one
  assertion of the file that a beam value other than begin, continue, end "is a contract
  violation (fails with a format error)": a false condition raises.
\<close>

definition Vex_Assert :: "bool \<Rightarrow> string \<Rightarrow> error + unit" where
  "Vex_Assert cond msg = (if cond then Inr () else Inl (RuntimeError ''AssertError'' msg))"

text \<open>
  Modelled from the spec: \<^verbatim>\<open>Vex.Merge\<close> is not in src/. The spec describes the merge of
  attribute snapshots as "left-to-right merge (later overrides earlier)", "each field takes
  the most recent value that set it": every property of the source object is written to
  the destination.
\<close>

type_synonym object = "string \<rightharpoonup> jsval"

definition Vex_Merge :: "object \<Rightarrow> object \<Rightarrow> object" where
  "Vex_Merge destination source = destination ++ source"

text \<open>\<^verbatim>\<open>o.name\<close>: a property that is not set reads as \<^verbatim>\<open>undefined\<close>.\<close>

definition property :: "object \<Rightarrow> string \<Rightarrow> jsval" where
  "property ob name = (case ob name of None \<Rightarrow> Undefined | Some v \<Rightarrow> v)"

subsection \<open>\<^verbatim>\<open>parseNote\<close>\<close>

datatype ticks = TicksNumber jsval | TicksFraction fraction

record tuplet =
  num_notes :: jsval
  beats_occupied :: jsval

text \<open>
  The object \<^verbatim>\<open>noteObj\<close>. A field that the source has not set is \<open>None\<close>
  (for \<open>tuplet\<close>, \<^verbatim>\<open>null\<close>).
\<close>

record noteObj =
  rest :: bool
  chord :: bool
  keys :: "string list option"
  duration :: "string option"
  intrinsicTicks :: "ticks option"
  tickMultiplier :: "fraction option"
  tuplet :: "tuplet option"
  voice :: "int option"
  stave :: "nat option"
  stem_direction :: "int option"
  beam :: "string option"
  tie :: "string option"

definition newNoteObj :: noteObj where
  "newNoteObj = \<lparr>rest = False, chord = False, keys = None, duration = None,
     intrinsicTicks = None, tickMultiplier = None, tuplet = None, voice = None,
     stave = None, stem_direction = None, beam = None, tie = None\<rparr>"

text \<open>
  \<^verbatim>\<open>Array.prototype.forEach.call(xs, f)\<close> where \<open>f\<close> updates the variables \<open>s\<close> of
  the enclosing function and may throw.
\<close>

fun forEach :: "('a \<Rightarrow> 's \<Rightarrow> error + 's) \<Rightarrow> 'a list \<Rightarrow> 's \<Rightarrow> error + 's" where
  "forEach f [] s = Inr s"
| "forEach f (x # xs) s = (case f x s of Inl e \<Rightarrow> Inl e | Inr s' \<Rightarrow> forEach f xs s')"

definition case_pitch :: "node \<Rightarrow> noteObj \<Rightarrow> error + noteObj" where
  "case_pitch elem ob =
    (case firstByTagName ''step'' elem of
       None \<Rightarrow> Inl (TypeError ''step is undefined'')
     | Some stepElem \<Rightarrow>
        (case firstByTagName ''octave'' elem of
           None \<Rightarrow> Inl (TypeError ''octave is undefined'')
         | Some octaveElem \<Rightarrow>
            (let step = textContent stepElem;
                 octave = parseInt (textContent octaveElem);
                 step' = (case firstByTagName ''alter'' elem of
                            None \<Rightarrow> step
                          | Some alter \<Rightarrow>
                             (let a = parseInt (textContent alter) in
                              if a = Num 1 then step @ ''#''
                              else if a = Num 2 then step @ ''##''
                              else if a = Num (- 1) then step @ ''b''
                              else if a = Num (- 2) then step @ ''bb''
                              else step))
             in Inr (ob\<lparr>keys := Some [step' @ ''/'' @ numToString octave]\<rparr>))))"

definition durationCodes :: "(string \<times> string) list" where
  "durationCodes =
    [(''whole'', ''1''), (''half'', ''2''), (''quarter'', ''4''), (''eighth'', ''8''),
     (''16th'', ''16''), (''32nd'', ''32''), (''64th'', ''64''), (''128th'', ''128''),
     (''256th'', ''256'')]"

text \<open>
  \<^verbatim>\<open>duration += "r"\<close>: an \<^verbatim>\<open>undefined\<close> duration (a type the table does not have)
  becomes the characters \<^verbatim>\<open>undefined\<close>. Names that every JavaScript object inherits
  (\<^verbatim>\<open>toString\<close> and the like) are not looked up.
\<close>

definition case_type :: "node \<Rightarrow> noteObj \<Rightarrow> error + noteObj" where
  "case_type elem ob =
    (let d = map_of durationCodes (textContent elem) in
     Inr (ob\<lparr>duration :=
            (if rest ob then Some ((case d of None \<Rightarrow> ''undefined'' | Some c \<Rightarrow> c) @ ''r'')
             else d)\<rparr>))"

text \<open>
  \<^verbatim>\<open>duration.substring(0, duration.indexOf("r"))\<close>: the characters before the first
  \<^verbatim>\<open>r\<close>, none when there is no \<^verbatim>\<open>r\<close> (the index is then \<open>-1\<close>).
\<close>

definition beforeFirstR :: "string \<Rightarrow> string" where
  "beforeFirstR d = (if CHR ''r'' \<in> set d then takeWhile (\<lambda>c. c \<noteq> CHR ''r'') d else [])"

definition case_dot :: "noteObj \<Rightarrow> error + noteObj" where
  "case_dot ob =
    (case duration ob of
       None \<Rightarrow> Inl (TypeError ''noteObj.duration is undefined'')
     | Some d \<Rightarrow>
        Inr (ob\<lparr>duration := Some (if rest ob then beforeFirstR d @ ''dr'' else d @ ''d'')\<rparr>))"

text \<open>
  \<^verbatim>\<open>Vex.Flow.RESOLUTION\<close> is not in src/; it is the parameter \<open>RESOLUTION\<close>, and
  \<^verbatim>\<open>RESOLUTION / 4\<close> is \<open>RESOLUTION div 4\<close> (VexFlow's constant is a multiple of 4).
\<close>

definition case_duration :: "int \<Rightarrow> object \<Rightarrow> node \<Rightarrow> noteObj \<Rightarrow> error + noteObj" where
  "case_duration RESOLUTION attrs elem ob =
    (let intrinsicTicks' =
           simplify (Fraction (Number (times_num (Num (RESOLUTION div 4))
                                                  (parseInt (textContent elem))))
                              (property attrs ''divisions''))
     in if isNaN (numerator intrinsicTicks') \<or> isNaN (denominator intrinsicTicks')
        then Inl (RuntimeError ''InvalidMusicXML'' ''Error parsing MusicXML duration'')
        else Inr (ob\<lparr>intrinsicTicks :=
                    Some (if denominator intrinsicTicks' = Number (Num 1)
                          then TicksNumber (numerator intrinsicTicks')
                          else TicksFraction intrinsicTicks')\<rparr>))"

definition elemOrUndefined :: "node option \<Rightarrow> jsval" where
  "elemOrUndefined e = (case e of None \<Rightarrow> Undefined | Some d \<Rightarrow> Elem d)"

definition parseIntOf :: "jsval \<Rightarrow> jsval" where
  "parseIntOf v = (case v of Elem d \<Rightarrow> Number (parseInt (textContent d)) | _ \<Rightarrow> Number NaN)"

text \<open>The two variables \<^verbatim>\<open>num_notes\<close> and \<^verbatim>\<open>beats_occupied\<close> of \<^verbatim>\<open>parseNote\<close>.\<close>

definition case_time_modification :: "node \<Rightarrow> jsval \<times> jsval" where
  "case_time_modification elem =
    (let num_notes' = elemOrUndefined (firstByTagName ''actual-notes'' elem);
         beats_occupied' = elemOrUndefined (firstByTagName ''normal-notes'' elem)
     in if truthy num_notes' \<and> truthy beats_occupied'
        then (parseIntOf num_notes', parseIntOf beats_occupied')
        else (num_notes', beats_occupied'))"

definition case_rest :: "node \<Rightarrow> noteObj \<Rightarrow> noteObj" where
  "case_rest elem ob =
    (let ob' = ob\<lparr>rest := True\<rparr> in
     case firstByTagName ''display-step'' elem of
       None \<Rightarrow> ob'
     | Some step \<Rightarrow>
        (case firstByTagName ''display-octave'' elem of
           None \<Rightarrow> ob'
         | Some octave \<Rightarrow> ob'\<lparr>keys := Some [textContent step @ ''/'' @ textContent octave]\<rparr>))"

definition case_voice :: "node \<Rightarrow> noteObj \<Rightarrow> noteObj" where
  "case_voice elem ob =
    (case parseInt (textContent elem) of NaN \<Rightarrow> ob | Num v \<Rightarrow> ob\<lparr>voice := Some v\<rparr>)"

definition case_staff :: "node \<Rightarrow> noteObj \<Rightarrow> noteObj" where
  "case_staff elem ob =
    (case parseInt (textContent elem) of
       NaN \<Rightarrow> ob
     | Num s \<Rightarrow> if s > 0 then ob\<lparr>stave := Some (nat (s - 1))\<rparr> else ob)"

definition case_stem :: "node \<Rightarrow> noteObj \<Rightarrow> noteObj" where
  "case_stem elem ob =
    (if textContent elem = ''up'' then ob\<lparr>stem_direction := Some 1\<rparr>
     else if textContent elem = ''down'' then ob\<lparr>stem_direction := Some (- 1)\<rparr>
     else ob)"

definition case_beam :: "node \<Rightarrow> noteObj \<Rightarrow> error + noteObj" where
  "case_beam elem ob =
    (let b = textContent elem in
     case Vex_Assert (b = ''begin'' \<or> b = ''continue'' \<or> b = ''end'')
                     (''Bad beam in MusicXML: '' @ b) of
       Inl e \<Rightarrow> Inl e
     | Inr u \<Rightarrow> Inr (ob\<lparr>beam := Some b\<rparr>))"

text \<open>
  The \<^verbatim>\<open>tied\<close> child of \<^verbatim>\<open>notations\<close>. In the default branch the source evaluates
  \<^verbatim>\<open>Vex.RERR("BadMusicXML", "Bad tie: " + tie.toString())\<close> with neither \<^verbatim>\<open>throw\<close> nor
  \<^verbatim>\<open>new\<close>: the error object is not raised, and the note is left as it was. Only a
  missing \<^verbatim>\<open>type\<close> attribute raises, since \<^verbatim>\<open>tie\<close> is then \<^verbatim>\<open>null\<close> and
  \<^verbatim>\<open>tie.toString()\<close> is a type error.
\<close>

definition case_tied :: "node \<Rightarrow> noteObj \<Rightarrow> error + noteObj" where
  "case_tied notationElem ob =
    (case getAttribute notationElem ''type'' of
       None \<Rightarrow> Inl (TypeError ''tie is null'')
     | Some t \<Rightarrow>
        if t = ''start'' then Inr (ob\<lparr>tie := Some ''begin''\<rparr>)
        else if t = ''continue'' then Inr (ob\<lparr>tie := Some ''continue''\<rparr>)
        else if t = ''stop'' then Inr (ob\<lparr>tie := Some ''end''\<rparr>)
        else Inr ob)"

definition notations_elem :: "node \<Rightarrow> noteObj \<Rightarrow> error + noteObj" where
  "notations_elem notationElem ob =
    (if nodeName notationElem = ''tied'' then case_tied notationElem ob else Inr ob)"

definition case_notations :: "node \<Rightarrow> noteObj \<Rightarrow> error + noteObj" where
  "case_notations elem ob = forEach notations_elem (childNodes elem) ob"

text \<open>
  One child of the note element: the body of the \<^verbatim>\<open>forEach\<close> of \<^verbatim>\<open>parseNote\<close>. The
  state is \<^verbatim>\<open>noteObj\<close> with \<^verbatim>\<open>num_notes\<close> and \<^verbatim>\<open>beats_occupied\<close>.
\<close>

definition withObj :: "jsval \<times> jsval \<Rightarrow> error + noteObj \<Rightarrow> error + noteObj \<times> jsval \<times> jsval" where
  "withObj tm r = (case r of Inl e \<Rightarrow> Inl e | Inr ob \<Rightarrow> Inr (ob, tm))"

definition parseNote_elem ::
  "int \<Rightarrow> object \<Rightarrow> node \<Rightarrow> noteObj \<times> jsval \<times> jsval \<Rightarrow> error + noteObj \<times> jsval \<times> jsval" where
  "parseNote_elem RESOLUTION attrs elem st =
    (let ob = fst st; tm = snd st; name = nodeName elem in
     if name = ''pitch'' then withObj tm (case_pitch elem ob)
     else if name = ''type'' then withObj tm (case_type elem ob)
     else if name = ''dot'' then withObj tm (case_dot ob)
     else if name = ''duration'' then withObj tm (case_duration RESOLUTION attrs elem ob)
     else if name = ''time-modification'' then Inr (ob, case_time_modification elem)
     else if name = ''rest'' then Inr (case_rest elem ob, tm)
     else if name = ''chord'' then Inr (ob\<lparr>chord := True\<rparr>, tm)
     else if name = ''voice'' then Inr (case_voice elem ob, tm)
     else if name = ''staff'' then Inr (case_staff elem ob, tm)
     else if name = ''stem'' then Inr (case_stem elem ob, tm)
     else if name = ''beam'' then withObj tm (case_beam elem ob)
     else if name = ''notations'' then withObj tm (case_notations elem ob)
     else Inr st)"

text \<open>
  The clef that decides a rest's default position: \<^verbatim>\<open>attrs.clef\<close>, or its entry at the
  note's stave when it is an array (\<^verbatim>\<open>undefined\<close> when the note names no stave or the
  array has no such entry).
\<close>

definition restClef :: "object \<Rightarrow> noteObj \<Rightarrow> jsval" where
  "restClef attrs ob =
    (case property attrs ''clef'' of
       Array cs \<Rightarrow> (case stave ob of
                      None \<Rightarrow> Undefined
                    | Some i \<Rightarrow> if i < length cs then cs ! i else Undefined)
     | c \<Rightarrow> c)"

text \<open>The statements of \<^verbatim>\<open>parseNote\<close> after the \<^verbatim>\<open>forEach\<close>.\<close>

definition parseNote_finish :: "object \<Rightarrow> noteObj \<times> jsval \<times> jsval \<Rightarrow> noteObj" where
  "parseNote_finish attrs st =
    (let ob = fst st; num_notes' = fst (snd st); beats_occupied' = snd (snd st);
         ob1 = (if truthy num_notes' \<and> truthy beats_occupied'
                then ob\<lparr>tickMultiplier := Some (Fraction beats_occupied' num_notes'),
                        tuplet := Some \<lparr>num_notes = num_notes',
                                        beats_occupied = beats_occupied'\<rparr>\<rparr>
                else ob\<lparr>tickMultiplier := Some (Fraction (Number (Num 1)) (Number (Num 1))),
                        tuplet := None\<rparr>)
     in if rest ob1 \<and> keys ob1 = None
        then (if restClef attrs ob1 = String ''bass'' then ob1\<lparr>keys := Some [''D/3'']\<rparr>
              else ob1\<lparr>keys := Some [''B/4'']\<rparr>)
        else ob1)"

definition parseNote :: "int \<Rightarrow> node \<Rightarrow> object \<Rightarrow> error + noteObj" where
  "parseNote RESOLUTION noteElem attrs =
    (case forEach (parseNote_elem RESOLUTION attrs) (childNodes noteElem)
            (newNoteObj, Null, Null) of
       Inl e \<Rightarrow> Inl e
     | Inr st \<Rightarrow> Inr (parseNote_finish attrs st))"

subsection \<open>The backend object, \<^verbatim>\<open>parseAttributes\<close> and \<^verbatim>\<open>parse\<close>\<close>

text \<open>
  The fields of \<^verbatim>\<open>Vex.Flow.Backend.MusicXML\<close> that its functions use. The three arrays
  are sparse in JavaScript, so each is a map from indices; a row of \<^verbatim>\<open>measures\<close> is
  filled from index 0 without gaps and is a list. \<open>valid\<close> is \<open>None\<close> until it is assigned.
\<close>

record backend =
  measures :: "nat \<rightharpoonup> node list"
  numStaves :: "nat \<rightharpoonup> jsval"
  attributes :: "nat \<rightharpoonup> (nat \<rightharpoonup> object)"
  valid :: "bool option"

definition MusicXML :: backend where
  "MusicXML = \<lparr>measures = Map.empty, numStaves = Map.empty, attributes = Map.empty,
                valid = None\<rparr>"

text \<open>\<^verbatim>\<open>new Array(len)\<close>: \<open>len\<close> holes for a length, a one-element array otherwise.\<close>

fun newArray :: "jsval \<Rightarrow> error + jsval list" where
  "newArray (Number (Num n)) =
     (if 0 \<le> n \<and> n < 2 ^ 32 then Inr (replicate (nat n) Undefined)
      else Inl (RangeError ''Invalid array length''))"
| "newArray (Number NaN) = Inl (RangeError ''Invalid array length'')"
| "newArray v = Inr [v]"

text \<open>\<^verbatim>\<open>xs[i] = v\<close>: an index past the end lengthens the array, leaving holes.\<close>

definition arraySet :: "jsval list \<Rightarrow> nat \<Rightarrow> jsval \<Rightarrow> jsval list" where
  "arraySet xs i v =
     (if i < length xs then xs[i := v] else xs @ replicate (i - length xs) Undefined @ [v])"

text \<open>\<^verbatim>\<open>this.attributes[measureNum][partNum]\<close>, \<open>None\<close> when either index is not set.\<close>

definition snapshot :: "(nat \<rightharpoonup> (nat \<rightharpoonup> object)) \<Rightarrow> nat \<Rightarrow> nat \<Rightarrow> object option" where
  "snapshot table measureNum partNum =
     (case table measureNum of None \<Rightarrow> None | Some row \<Rightarrow> row partNum)"

text \<open>
  The three statements after the \<^verbatim>\<open>switch\<close> of \<^verbatim>\<open>parseAttributes\<close>:
  \<^verbatim>\<open>this.attributes[measureNum][partNum][attr.nodeName] = attrObject\<close>, creating the row
  and the object when they are not there.
\<close>

definition storeAttribute :: "nat \<Rightarrow> nat \<Rightarrow> string \<Rightarrow> jsval \<Rightarrow> backend \<Rightarrow> backend" where
  "storeAttribute measureNum partNum name attrObject st =
    (let row = (case attributes st measureNum of None \<Rightarrow> Map.empty | Some r \<Rightarrow> r);
         ob = (case row partNum of None \<Rightarrow> Map.empty | Some b \<Rightarrow> b)
     in st\<lparr>attributes := (attributes st)(measureNum \<mapsto> row(partNum \<mapsto> ob(name \<mapsto> attrObject)))\<rparr>)"

definition textOfFirst :: "string \<Rightarrow> node \<Rightarrow> error + string" where
  "textOfFirst name e =
    (case firstByTagName name e of
       None \<Rightarrow> Inl (TypeError (name @ '' is undefined''))
     | Some d \<Rightarrow> Inr (textContent d))"

definition case_key :: "node \<Rightarrow> error + jsval" where
  "case_key attr =
    (case textOfFirst ''fifths'' attr of
       Inl e \<Rightarrow> Inl e
     | Inr t \<Rightarrow> Inr (Object [(''fifths'', Number (parseInt t))]))"

definition case_time :: "node \<Rightarrow> error + jsval" where
  "case_time attr =
    (case textOfFirst ''beats'' attr of
       Inl e \<Rightarrow> Inl e
     | Inr b \<Rightarrow>
        (case textOfFirst ''beat-type'' attr of
           Inl e \<Rightarrow> Inl e
         | Inr t \<Rightarrow> Inr (Object [(''num_beats'', Number (parseInt b)),
                                   (''beat_value'', Number (parseInt t))])))"

text \<open>
  The \<^verbatim>\<open>clef\<close> case. \<^verbatim>\<open>attr.getAttribute("number")\<close> is \<^verbatim>\<open>null\<close> when the attribute
  is absent and \<^verbatim>\<open>parseInt(null)\<close> is \<^verbatim>\<open>NaN\<close>. \<^verbatim>\<open>line == "2"\<close> compares the number
  \<open>line\<close> with the number 2.
\<close>

definition case_clef :: "nat \<Rightarrow> nat \<Rightarrow> node \<Rightarrow> backend \<Rightarrow> error + jsval" where
  "case_clef measureNum partNum attr st =
    (let number = (case getAttribute attr ''number'' of None \<Rightarrow> NaN | Some t \<Rightarrow> parseInt t) in
     case textOfFirst ''sign'' attr of
       Inl e \<Rightarrow> Inl e
     | Inr sign \<Rightarrow>
        (case textOfFirst ''line'' attr of
           Inl e \<Rightarrow> Inl e
         | Inr lineText \<Rightarrow>
            (let line = parseInt lineText;
                 clef = (if sign = ''G'' \<and> line = Num 2 then String ''treble''
                         else if sign = ''F'' \<and> line = Num 4 then String ''bass''
                         else Null)
             in case number of
                  NaN \<Rightarrow> Inr clef
                | Num k \<Rightarrow>
                   if k > 0 then
                     (case (case snapshot (attributes st) measureNum partNum of
                              None \<Rightarrow> newArray (case numStaves st partNum of
                                                    None \<Rightarrow> Undefined | Some n \<Rightarrow> n)
                            | Some ob \<Rightarrow>
                               (case property ob ''clef'' of
                                  Array cs \<Rightarrow> Inr cs
                                | c \<Rightarrow> newArray (case numStaves st partNum of
                                                     None \<Rightarrow> Undefined | Some n \<Rightarrow> n))) of
                        Inl e \<Rightarrow> Inl e
                      | Inr cs \<Rightarrow> Inr (Array (arraySet cs (nat (k - 1)) clef)))
                   else Inr clef)))"

definition storeResult :: "nat \<Rightarrow> nat \<Rightarrow> string \<Rightarrow> backend \<Rightarrow> error + jsval \<Rightarrow> error + backend" where
  "storeResult measureNum partNum name st r =
    (case r of Inl e \<Rightarrow> Inl e
             | Inr attrObject \<Rightarrow> Inr (storeAttribute measureNum partNum name attrObject st))"

text \<open>
  One child of the \<^verbatim>\<open>attributes\<close> element. \<^verbatim>\<open>staves\<close> leaves \<^verbatim>\<open>attrObject\<close> at
  \<^verbatim>\<open>null\<close>, which is stored like any other value; an unknown child is skipped.
\<close>

definition parseAttributes_attr :: "nat \<Rightarrow> nat \<Rightarrow> node \<Rightarrow> backend \<Rightarrow> error + backend" where
  "parseAttributes_attr measureNum partNum attr st =
    (let name = nodeName attr in
     if name = ''staves'' then
       Inr (storeAttribute measureNum partNum name Null
              (if measureNum = 0
               then st\<lparr>numStaves := (numStaves st)(partNum \<mapsto> Number (parseInt (textContent attr)))\<rparr>
               else st))
     else if name = ''key'' then storeResult measureNum partNum name st (case_key attr)
     else if name = ''time'' then storeResult measureNum partNum name st (case_time attr)
     else if name = ''clef'' then
       storeResult measureNum partNum name st (case_clef measureNum partNum attr st)
     else if name = ''divisions'' then
       Inr (storeAttribute measureNum partNum name (Number (parseInt (textContent attr))) st)
     else Inr st)"

definition parseAttributes :: "nat \<Rightarrow> nat \<Rightarrow> node \<Rightarrow> backend \<Rightarrow> error + backend" where
  "parseAttributes measureNum partNum attrs st =
     forEach (parseAttributes_attr measureNum partNum) (childNodes attrs) st"

text \<open>
  How a loop body ends: \<open>Proceed\<close> when the loop runs to its end, \<open>Return\<close> when the
  function returned from inside it.
\<close>

datatype 'a flow = Proceed 'a | Return 'a

text \<open>
  The inner loop of \<^verbatim>\<open>parse\<close> over \<^verbatim>\<open>node.childNodes\<close>, from index \<open>j\<close> on. The test
  of the source is \<^verbatim>\<open>j in this.measures\<close>, with the index \<open>j\<close> of the child node, while
  the row it creates and reads is \<^verbatim>\<open>this.measures[measureNum]\<close>.
\<close>

fun parse_measures :: "nat \<Rightarrow> node list \<Rightarrow> nat \<Rightarrow> nat \<Rightarrow> backend \<Rightarrow> error + backend flow" where
  "parse_measures partNum [] j measureNum st = Inr (Proceed st)"
| "parse_measures partNum (m # ms) j measureNum st =
    (if nodeName m \<noteq> ''measure'' then parse_measures partNum ms (Suc j) measureNum st
     else
      (let st1 = (if measures st j \<noteq> None then st
                  else st\<lparr>measures := (measures st)(measureNum \<mapsto> [])\<rparr>)
       in case measures st1 measureNum of
            None \<Rightarrow> Inl (TypeError ''this.measures[measureNum] is undefined'')
          | Some row \<Rightarrow>
             if length row \<noteq> partNum then Inr (Return (st1\<lparr>valid := Some False\<rparr>))
             else
              (let st2 = st1\<lparr>measures := (measures st1)(measureNum \<mapsto> row @ [m])\<rparr> in
               case (case firstByTagName ''attributes'' m of
                       None \<Rightarrow> Inr st2
                     | Some a \<Rightarrow> parseAttributes measureNum partNum a st2) of
                 Inl e \<Rightarrow> Inl e
               | Inr st3 \<Rightarrow> parse_measures partNum ms (Suc j) (Suc measureNum) st3)))"

text \<open>The outer loop of \<^verbatim>\<open>parse\<close> over \<^verbatim>\<open>documentElement.childNodes\<close>.\<close>

fun parse_parts :: "node list \<Rightarrow> nat \<Rightarrow> backend \<Rightarrow> error + backend flow" where
  "parse_parts [] partNum st = Inr (Proceed st)"
| "parse_parts (n # ns) partNum st =
    (if nodeName n = ''part'' then
       (case parse_measures partNum (childNodes n) 0 0 st of
          Inl e \<Rightarrow> Inl e
        | Inr (Return st') \<Rightarrow> Inr (Return st')
        | Inr (Proceed st') \<Rightarrow>
           parse_parts ns (Suc partNum)
             (if numStaves st' partNum = None
              then st'\<lparr>numStaves := (numStaves st')(partNum \<mapsto> Number (Num 1))\<rparr>
              else st'))
     else parse_parts ns partNum st)"

text \<open>
  \<^verbatim>\<open>parse(data)\<close> for a DOM document with the root element \<open>documentElement\<close>
  (parsing the text of a document is the browser's work).
\<close>

definition parse :: "backend \<Rightarrow> node \<Rightarrow> error + backend" where
  "parse st documentElement =
    (if nodeName documentElement \<noteq> ''score-partwise''
     then Inl (RuntimeError ''ArgumentError'' ''VexFlow only supports partwise scores'')
     else case parse_parts (childNodes documentElement) 0 st of
            Inl e \<Rightarrow> Inl e
          | Inr (Return st') \<Rightarrow> Inr st'
          | Inr (Proceed st') \<Rightarrow> Inr (st'\<lparr>valid := Some True\<rparr>))"

definition isValid :: "backend \<Rightarrow> bool option" where
  "isValid st = valid st"

subsection \<open>\<^verbatim>\<open>getAttributes\<close>\<close>

definition getAttributes :: "backend \<Rightarrow> nat \<Rightarrow> nat \<Rightarrow> object" where
  "getAttributes st m p =
     foldl (\<lambda>attrs i. case attributes st i of
                         None \<Rightarrow> attrs
                       | Some row \<Rightarrow> (case row p of
                                        None \<Rightarrow> attrs
                                      | Some ob \<Rightarrow> Vex_Merge attrs ob))
           Map.empty [0..<Suc m]"

subsection \<open>The measure objects\<close>

text \<open>
  Modelled from the spec: \<^verbatim>\<open>Vex.Flow.Measure\<close>, \<^verbatim>\<open>Vex.Flow.Measure.Part\<close>, its voices
  and \<^verbatim>\<open>Vex.Flow.Measure.Note\<close> are not in src/. The spec describes the measure object
  as "exposing: declared time signature, per-part stave count and per-staff clef, and
  per-part compacted voice list of NoteEvents", with the operations "set number of parts",
  "set/get a part by index", "set number of staves on a part", "set a staff's clef", "set
  number of voices", "get/set a voice by index" and "append a note to a voice"; a voice is
  "an ordered sequence of NoteEvents sharing a voice id" with "an optional home staff hint",
  and the events are appended "to the bucket for its voice id". So a part holds a number of
  voices and one bucket per voice id, empty until a note is appended; setting the number
  of voices sets that number (the spec does not say what becomes of a bucket at or above
  the new number; it is kept here, and no property below depends on it); a note object is
  the decoded \<^verbatim>\<open>noteObj\<close>. A new part has one voice, as \<^verbatim>\<open>var numVoices = 1\<close> of
  \<^verbatim>\<open>getMeasure\<close> assumes.
\<close>

record time_signature =
  num_beats :: int
  beat_value :: int

record voiceObj =
  voice_notes :: "noteObj list"
  voice_stave :: "nat option"

record partObj =
  part_time :: time_signature
  part_clef :: jsval
  numberOfStaves :: jsval
  staveClefs :: "nat \<rightharpoonup> jsval"
  numberOfVoices :: nat
  voices :: "int \<Rightarrow> voiceObj"

record measureObj =
  time :: time_signature
  parts :: "partObj list"

text \<open>
  Modelled from the spec: the constructors and the operations of a part ("set number of
  voices", "get/set a voice by index", "set a staff's clef", "append a note to a voice").
\<close>

definition newVoice :: voiceObj where
  "newVoice = \<lparr>voice_notes = [], voice_stave = None\<rparr>"

definition newPart :: "time_signature \<Rightarrow> jsval \<Rightarrow> partObj" where
  "newPart t c = \<lparr>part_time = t, part_clef = c, numberOfStaves = Undefined,
                  staveClefs = Map.empty, numberOfVoices = 1, voices = (\<lambda>i. newVoice)\<rparr>"

definition getNumberOfVoices :: "partObj \<Rightarrow> nat" where
  "getNumberOfVoices part = numberOfVoices part"

definition setNumberOfVoices :: "nat \<Rightarrow> partObj \<Rightarrow> partObj" where
  "setNumberOfVoices n part = part\<lparr>numberOfVoices := n\<rparr>"

definition getVoice :: "partObj \<Rightarrow> int \<Rightarrow> voiceObj" where
  "getVoice part i = voices part i"

definition setVoice :: "int \<Rightarrow> voiceObj \<Rightarrow> partObj \<Rightarrow> partObj" where
  "setVoice i vo part = part\<lparr>voices := (voices part)(i := vo)\<rparr>"

definition setStave :: "nat \<Rightarrow> jsval \<Rightarrow> partObj \<Rightarrow> partObj" where
  "setStave s c part = part\<lparr>staveClefs := (staveClefs part)(s \<mapsto> c)\<rparr>"

text \<open>The voices of a part that its number of voices covers, in the order of their ids.\<close>

definition voiceList :: "partObj \<Rightarrow> voiceObj list" where
  "voiceList part = map (\<lambda>i. getVoice part (int i)) [0..<getNumberOfVoices part]"

subsection \<open>\<^verbatim>\<open>getMeasure\<close>\<close>

text \<open>
  The voice of a decoded note (lines 147 to 152): \<^verbatim>\<open>if (noteObj.voice)\<close> holds for a
  voice other than 0; \<^verbatim>\<open>numVoices\<close> is the constant 1 throughout, so every note with
  a voice of 1 or more sets the part's number of voices to its own voice plus 1.
\<close>

definition noteVoice :: "noteObj \<Rightarrow> partObj \<Rightarrow> int \<times> noteObj \<times> partObj" where
  "noteVoice ob part =
    (case voice ob of
       None \<Rightarrow> (0, ob, part)
     | Some v \<Rightarrow>
        if v \<noteq> 0
        then (v, ob\<lparr>voice := None\<rparr>,
              if v \<ge> 1 then setNumberOfVoices (nat (v + 1)) part else part)
        else (0, ob, part))"

text \<open>
  The chord branch (line 159):
  \<^verbatim>\<open>voice.notes[voice.notes.length-1].keys.push(noteObj.keys[0])\<close>. Every key array
  that \<^verbatim>\<open>parseNote\<close> makes has one element, which \<open>take 1\<close> reads.
\<close>

definition pushChordKey :: "noteObj \<Rightarrow> voiceObj \<Rightarrow> error + voiceObj" where
  "pushChordKey ob vo =
    (if voice_notes vo = [] then Inl (TypeError ''voice.notes[voice.notes.length-1] is undefined'')
     else
      (case keys (last (voice_notes vo)) of
         None \<Rightarrow> Inl (TypeError ''keys of the last note is undefined'')
       | Some ks \<Rightarrow>
          (case keys ob of
             None \<Rightarrow> Inl (TypeError ''noteObj.keys is undefined'')
           | Some ks' \<Rightarrow>
              Inr (vo\<lparr>voice_notes := butlast (voice_notes vo)
                              @ [(last (voice_notes vo))\<lparr>keys := Some (ks @ take 1 ks')\<rparr>]\<rparr>))))"

definition addNote :: "noteObj \<Rightarrow> voiceObj \<Rightarrow> voiceObj" where
  "addNote ob vo = vo\<lparr>voice_notes := voice_notes vo @ [ob]\<rparr>"

text \<open>Lines 147 to 160: what \<^verbatim>\<open>getMeasure\<close> does with one decoded note.\<close>

definition placeNote :: "noteObj \<Rightarrow> partObj \<Rightarrow> error + partObj" where
  "placeNote noteObj0 part0 =
    (let voiceNum = fst (noteVoice noteObj0 part0);
         ob = fst (snd (noteVoice noteObj0 part0));
         part = snd (snd (noteVoice noteObj0 part0));
         vo = getVoice part voiceNum;
         vo1 = (if voice_notes vo = [] \<and> stave ob \<noteq> None then vo\<lparr>voice_stave := stave ob\<rparr> else vo)
     in if chord ob
        then (case pushChordKey ob vo1 of
                Inl e \<Rightarrow> Inl e
              | Inr vo2 \<Rightarrow> Inr (setVoice voiceNum vo2 part))
        else Inr (setVoice voiceNum (addNote ob vo1) part))"

definition noteStep :: "int \<Rightarrow> object \<Rightarrow> node \<Rightarrow> partObj \<Rightarrow> error + partObj" where
  "noteStep RESOLUTION attrs noteElem part =
    (case parseNote RESOLUTION noteElem attrs of
       Inl e \<Rightarrow> Inl e
     | Inr ob \<Rightarrow> placeNote ob part)"

text \<open>
  Lines 165 to 173. The new part (the first component of \<open>acc\<close>) starts as a copy of the
  part; \<open>v\<close> (the second) counts the voices kept. A voice is kept when it has a note
  (every voice of this model is an object). The loop writes the index \<open>v\<close>, which is at
  most \<open>i\<close>, and then reads only indices above \<open>i\<close>, so it does not matter whether the
  copy shares its voices with the part.
\<close>

fun compactLoop :: "partObj \<Rightarrow> nat list \<Rightarrow> partObj \<times> nat \<Rightarrow> partObj \<times> nat" where
  "compactLoop part [] acc = acc"
| "compactLoop part (i # js) acc =
    (if voice_notes (getVoice part (int i)) \<noteq> []
     then compactLoop part js
            (setVoice (int (snd acc)) (getVoice part (int i)) (fst acc), Suc (snd acc))
     else compactLoop part js acc)"

definition compactVoices :: "partObj \<Rightarrow> partObj" where
  "compactVoices part =
    (let r = compactLoop part [0..<getNumberOfVoices part] (part, 0)
     in setNumberOfVoices (snd r) (fst r))"

text \<open>
  The clefs of the staves (lines 138 to 140): the loop runs for \<open>s\<close> below
  \<^verbatim>\<open>this.numStaves[p]\<close>, not at all when that is no number.
\<close>

definition arrayGet :: "jsval list \<Rightarrow> nat \<Rightarrow> jsval" where
  "arrayGet xs i = (if i < length xs then xs ! i else Undefined)"

definition setStaves :: "jsval \<Rightarrow> jsval \<Rightarrow> partObj \<Rightarrow> partObj" where
  "setStaves clef n part =
    (case clef of
       Array cs \<Rightarrow> (case toInt n of
                      None \<Rightarrow> part
                    | Some k \<Rightarrow> foldl (\<lambda>pt s. setStave s (arrayGet cs s) pt) part [0..<nat k])
     | c \<Rightarrow> part)"

text \<open>The body of the loop over the parts (lines 132 to 174) for part \<open>p\<close>.\<close>

definition getMeasure_part ::
  "int \<Rightarrow> backend \<Rightarrow> nat \<Rightarrow> time_signature \<Rightarrow> node \<Rightarrow> nat \<Rightarrow> error + partObj" where
  "getMeasure_part RESOLUTION st m t measureElem p =
    (let attrs = getAttributes st m p;
         clef = property attrs ''clef'';
         n = (case numStaves st p of None \<Rightarrow> Undefined | Some k \<Rightarrow> k);
         part = newPart t (case clef of String c \<Rightarrow> clef | c \<Rightarrow> Undefined);
         part1 = setStaves clef n (part\<lparr>numberOfStaves := n\<rparr>)
     in case forEach (noteStep RESOLUTION attrs) (getElementsByTagName ''note'' measureElem) part1 of
          Inl e \<Rightarrow> Inl e
        | Inr part2 \<Rightarrow> Inr (compactVoices part2))"

fun getMeasure_parts ::
  "int \<Rightarrow> backend \<Rightarrow> nat \<Rightarrow> time_signature \<Rightarrow> node list \<Rightarrow> nat \<Rightarrow> error + partObj list" where
  "getMeasure_parts RESOLUTION st m t [] p = Inr []"
| "getMeasure_parts RESOLUTION st m t (e # es) p =
    (case getMeasure_part RESOLUTION st m t e p of
       Inl err \<Rightarrow> Inl err
     | Inr part \<Rightarrow>
        (case getMeasure_parts RESOLUTION st m t es (Suc p) of
           Inl err \<Rightarrow> Inl err
         | Inr ps \<Rightarrow> Inr (part # ps)))"

definition getMeasure :: "int \<Rightarrow> backend \<Rightarrow> nat \<Rightarrow> error + measureObj" where
  "getMeasure RESOLUTION st m =
    (let t = \<lparr>num_beats = 4, beat_value = 4\<rparr> in
     case measures st m of
       None \<Rightarrow> Inl (TypeError ''this.measures[m] is undefined'')
     | Some row \<Rightarrow>
        (case getMeasure_parts RESOLUTION st m t row 0 of
           Inl e \<Rightarrow> Inl e
         | Inr ps \<Rightarrow> Inr \<lparr>time = t, parts = ps\<rparr>))"

subsection \<open>Notions used to state the properties\<close>

text \<open>The snapshot stored for measure \<open>i\<close> and part \<open>p\<close>; the empty object when none is.\<close>

definition storedSnapshot :: "backend \<Rightarrow> nat \<Rightarrow> nat \<Rightarrow> object" where
  "storedSnapshot st i p =
     (case snapshot (attributes st) i p of None \<Rightarrow> Map.empty | Some ob \<Rightarrow> ob)"

text \<open>The validity flag that \<^verbatim>\<open>isValid\<close> reports after \<^verbatim>\<open>parse\<close> on a new backend.\<close>

definition validAfterParse :: "node \<Rightarrow> bool option" where
  "validAfterParse d = (case parse MusicXML d of Inl e \<Rightarrow> None | Inr st \<Rightarrow> isValid st)"

text \<open>The backend after \<^verbatim>\<open>parse\<close> (the new backend when \<^verbatim>\<open>parse\<close> throws).\<close>

definition parsed :: "node \<Rightarrow> backend" where
  "parsed d = (case parse MusicXML d of Inl e \<Rightarrow> MusicXML | Inr st \<Rightarrow> st)"

text \<open>The last child with a given name.\<close>

fun lastNamed :: "string \<Rightarrow> node list \<Rightarrow> node option" where
  "lastNamed name [] = None"
| "lastNamed name (c # cs) =
    (case lastNamed name cs of
       Some d \<Rightarrow> Some d
     | None \<Rightarrow> if nodeName c = name then Some c else None)"

text \<open>
  The key that a \<^verbatim>\<open>rest\<close> element carries: its display step and display octave, when
  it has both.
\<close>

definition restDisplayKey :: "node \<Rightarrow> string option" where
  "restDisplayKey c =
    (case firstByTagName ''display-step'' c of
       None \<Rightarrow> None
     | Some step \<Rightarrow>
        (case firstByTagName ''display-octave'' c of
           None \<Rightarrow> None
         | Some octave \<Rightarrow> Some (textContent step @ ''/'' @ textContent octave)))"


text \<open>The value of the variable \<^verbatim>\<open>voiceNum\<close> of \<^verbatim>\<open>getMeasure\<close> for a decoded note.\<close>

definition voiceNumOf :: "noteObj \<Rightarrow> int" where
  "voiceNumOf ob = (case voice ob of None \<Rightarrow> 0 | Some v \<Rightarrow> v)"


text \<open>
  The counts (actual notes, normal notes) of a \<^verbatim>\<open>time-modification\<close> element that has
  both an \<^verbatim>\<open>actual-notes\<close> and a \<^verbatim>\<open>normal-notes\<close> element whose texts are numbers
  other than 0.
\<close>

definition tupletCounts :: "node \<Rightarrow> (int \<times> int) option" where
  "tupletCounts t =
    (case firstByTagName ''actual-notes'' t of
       None \<Rightarrow> None
     | Some a \<Rightarrow>
        (case firstByTagName ''normal-notes'' t of
           None \<Rightarrow> None
         | Some n \<Rightarrow>
            (case parseInt (textContent a) of
               NaN \<Rightarrow> None
             | Num x \<Rightarrow>
                (case parseInt (textContent n) of
                   NaN \<Rightarrow> None
                 | Num y \<Rightarrow> if x \<noteq> 0 \<and> y \<noteq> 0 then Some (x, y) else None))))"

text \<open>The counts of the last \<^verbatim>\<open>time-modification\<close> child of a note element.\<close>

definition noteTupletCounts :: "node \<Rightarrow> (int \<times> int) option" where
  "noteTupletCounts noteElem =
    (case lastNamed ''time-modification'' (childNodes noteElem) of
       None \<Rightarrow> None
     | Some t \<Rightarrow> tupletCounts t)"

text \<open>A plain number when the denominator is 1, the fraction otherwise.\<close>

definition ticksOf :: "int \<Rightarrow> int \<Rightarrow> ticks" where
  "ticksOf a b =
    (if b = 1 then TicksNumber (Number (Num a))
     else TicksFraction (Fraction (Number (Num a)) (Number (Num b))))"

text \<open>The fraction that the \<^verbatim>\<open>duration\<close> case simplifies, for the raw duration \<open>d\<close>.\<close>

definition rawTicks :: "int \<Rightarrow> object \<Rightarrow> int \<Rightarrow> fraction" where
  "rawTicks RESOLUTION attrs d =
     Fraction (Number (Num (RESOLUTION div 4 * d))) (property attrs ''divisions'')"


text \<open>The decoded note, \<open>None\<close> when \<^verbatim>\<open>parseNote\<close> throws.\<close>

definition decoded :: "int \<Rightarrow> node \<Rightarrow> object \<Rightarrow> noteObj option" where
  "decoded RESOLUTION noteElem attrs =
    (case parseNote RESOLUTION noteElem attrs of Inl e \<Rightarrow> None | Inr ob \<Rightarrow> Some ob)"

text \<open>The keys of the events of each voice of a part, in the order of the voices.\<close>

definition voiceKeys :: "partObj \<Rightarrow> string list option list list" where
  "voiceKeys part = map (\<lambda>vo. map keys (voice_notes vo)) (voiceList part)"

text \<open>
  The keys of measure \<open>m\<close> of a document, part by part and voice by voice; \<open>None\<close> when
  \<^verbatim>\<open>getMeasure\<close> throws.
\<close>

definition measureKeys :: "int \<Rightarrow> node \<Rightarrow> nat \<Rightarrow> string list option list list list option" where
  "measureKeys RESOLUTION d m =
    (case getMeasure RESOLUTION (parsed d) m of
       Inl e \<Rightarrow> None
     | Inr meas \<Rightarrow> Some (map voiceKeys (parts meas)))"


subsection \<open>Example documents\<close>

definition emptyMeasure :: node where
  "emptyMeasure = Element ''measure'' [] []"

text \<open>Two parts; the second has one measure fewer than the first.\<close>

definition shortLastPart :: node where
  "shortLastPart = Element ''score-partwise'' []
     [Element ''part'' [] [emptyMeasure, emptyMeasure],
      Element ''part'' [] [emptyMeasure]]"

text \<open>Two parts of two measures each, with the white space of an indented file.\<close>

definition indentedParts :: node where
  "indentedParts = Element ''score-partwise'' []
     [Element ''part'' [] [Text '' '', emptyMeasure, Text '' '', emptyMeasure, Text '' ''],
      Element ''part'' [] [Text '' '', emptyMeasure, Text '' '', emptyMeasure, Text '' '']]"

text \<open>A note whose \<^verbatim>\<open>tied\<close> element has a type other than start, continue, stop.\<close>

definition badTie :: node where
  "badTie = Element ''note'' []
     [Element ''notations'' [] [Element ''tied'' [(''type'', ''let-ring'')] []]]"

text \<open>
  One part of four measures: time 3/4 and a treble clef at measure 0, time 4/4 at
  measure 2.
\<close>

definition timeChange :: node where
  "timeChange = Element ''score-partwise'' []
     [Element ''part'' []
       [Element ''measure'' [] [Element ''attributes'' []
          [Element ''divisions'' [] [Text ''4''],
           Element ''time'' [] [Element ''beats'' [] [Text ''3''],
                                Element ''beat-type'' [] [Text ''4'']],
           Element ''clef'' [] [Element ''sign'' [] [Text ''G''],
                                Element ''line'' [] [Text ''2'']]]],
        Element ''measure'' [] [],
        Element ''measure'' [] [Element ''attributes'' []
          [Element ''time'' [] [Element ''beats'' [] [Text ''4''],
                                Element ''beat-type'' [] [Text ''4'']]]],
        Element ''measure'' [] []]]"

definition pitchOf :: "string \<Rightarrow> string \<Rightarrow> node" where
  "pitchOf step octave = Element ''pitch'' []
     [Element ''step'' [] [Text step], Element ''octave'' [] [Text octave]]"

text \<open>A quarter note C4 with the raw duration 4.\<close>

definition quarterNote :: node where
  "quarterNote = Element ''note'' []
     [pitchOf ''C'' ''4'', Element ''duration'' [] [Text ''4''],
      Element ''type'' [] [Text ''quarter'']]"

definition divisions4 :: object where
  "divisions4 = Map.empty(''divisions'' \<mapsto> Number (Num 4))"

text \<open>A note of a triplet: three notes in the time of two.\<close>

definition tripletNote :: node where
  "tripletNote = Element ''note'' []
     [pitchOf ''C'' ''4'',
      Element ''time-modification'' []
        [Element ''actual-notes'' [] [Text ''3''], Element ''normal-notes'' [] [Text ''2'']]]"

text \<open>A note whose \<^verbatim>\<open>time-modification\<close> supplies the counts 3 and 0.\<close>

definition zeroNormalNotes :: node where
  "zeroNormalNotes = Element ''note'' []
     [pitchOf ''C'' ''4'',
      Element ''time-modification'' []
        [Element ''actual-notes'' [] [Text ''3''], Element ''normal-notes'' [] [Text ''0'']]]"





definition voicedNote :: "string \<Rightarrow> string \<Rightarrow> node" where
  "voicedNote step v = Element ''note'' []
     [pitchOf step ''4'', Element ''voice'' [] [Text v]]"

text \<open>
  One part, one measure, three notes: C4 in voice 5, then E4 in voice 2, then G4 with no
  voice element (voice 0).
\<close>

definition descendingVoices :: node where
  "descendingVoices = Element ''score-partwise'' []
     [Element ''part'' []
       [Element ''measure'' []
         [voicedNote ''C'' ''5'', voicedNote ''E'' ''2'',
          Element ''note'' [] [pitchOf ''G'' ''4'']]]]"

text \<open>The same three notes with the voices in ascending order.\<close>

definition ascendingVoices :: node where
  "ascendingVoices = Element ''score-partwise'' []
     [Element ''part'' []
       [Element ''measure'' []
         [Element ''note'' [] [pitchOf ''G'' ''4''], voicedNote ''E'' ''2'',
          voicedNote ''C'' ''5'']]]"

text \<open>A chord C4 E4 in voice 1 under a 3/4 time signature.\<close>

definition chordMeasure :: node where
  "chordMeasure = Element ''score-partwise'' []
     [Element ''part'' []
       [Element ''measure'' []
         [Element ''attributes'' []
            [Element ''divisions'' [] [Text ''1''],
             Element ''time'' [] [Element ''beats'' [] [Text ''3''],
                                  Element ''beat-type'' [] [Text ''4'']]],
          voicedNote ''C'' ''1'',
          Element ''note'' [] [Element ''chord'' [] [], pitchOf ''E'' ''4'',
                               Element ''voice'' [] [Text ''1'']]]]]"

text \<open>The second note of \<open>chordMeasure\<close>, and a part that holds the first.\<close>

definition chordTone :: node where
  "chordTone = Element ''note'' []
     [Element ''chord'' [] [], pitchOf ''E'' ''4'', Element ''voice'' [] [Text ''1'']]"



text \<open>
  A backend with one measure of one part (the measure of \<open>chordMeasure\<close>) whose snapshot
  holds the time 3/4, and the same backend with no time in the snapshot.
\<close>

definition withTime :: backend where
  "withTime = MusicXML\<lparr>
     measures := [0 \<mapsto> [Element ''measure'' [] [voicedNote ''C'' ''1'', chordTone]]],
     numStaves := [0 \<mapsto> Number (Num 1)],
     attributes := [0 \<mapsto> [0 \<mapsto> [''divisions'' \<mapsto> Number (Num 1),
        ''time'' \<mapsto> Object [(''num_beats'', Number (Num 3)), (''beat_value'', Number (Num 4))]]]]\<rparr>"

definition withoutTime :: backend where
  "withoutTime = withTime\<lparr>attributes := [0 \<mapsto> [0 \<mapsto> [''divisions'' \<mapsto> Number (Num 1)]]]\<rparr>"

section \<open>Properties\<close>

subsection \<open>Evaluation\<close>

lemma parseInt_example:
  "parseInt ''  42abc'' = Num 42 \<and> parseInt ''-3'' = Num (- 3) \<and> parseInt ''x'' = NaN"
  by code_simp

lemma numToString_example:
  "numToString (Num 105) = ''105'' \<and> numToString (Num (- 4)) = ''-4''"
  by (simp add: digitChar_def)

subsection \<open>The validity flag of \<^verbatim>\<open>parse\<close>\<close>

text \<open>
  Claim C1 says that the validity flag ends up true if and only if every part supplies
  the same number of measures, and that a two-part document whose second part has one
  measure fewer than the first is reported invalid. The source tests only whether the row
  of a measure already holds an entry for every earlier part (line 85), so a last part
  that is too short is never noticed: for the document \<open>shortLastPart\<close> the flag is true.
\<close>

theorem parse_shortLastPart_valid: "validAfterParse shortLastPart = Some True"
  by code_simp

text \<open>
  The other direction fails as well: line 84 tests \<^verbatim>\<open>j in this.measures\<close> with the
  index of the child node where the row index is \<^verbatim>\<open>measureNum\<close>, so with text nodes
  between the measures the second part empties a row that the first part filled, and two
  parts of equal length are reported invalid.
\<close>

lemma parse_indentedParts_invalid: "validAfterParse indentedParts = Some False"
  by code_simp

subsection \<open>Ties and beams in \<^verbatim>\<open>parseNote\<close>\<close>

text \<open>
  Claim C2 says that a tied type other than start, continue, stop makes the decoding
  fail with a format error. The default branch of the source (line 327) builds the error
  without raising it: the note \<open>badTie\<close> is decoded, with no tie.
\<close>

theorem parseNote_badTie_succeeds:
  "parseNote RESOLUTION badTie attrs =
     Inr (newNoteObj\<lparr>tickMultiplier := Some (Fraction (Number (Num 1)) (Number (Num 1)))\<rparr>)"
  by (simp add: parseNote_def badTie_def parseNote_elem_def withObj_def case_notations_def
      notations_elem_def case_tied_def parseNote_finish_def newNoteObj_def)

lemma case_tied_mapping:
  "case_tied (Element ''tied'' [(''type'', ''start'')] []) ob = Inr (ob\<lparr>tie := Some ''begin''\<rparr>)"
  "case_tied (Element ''tied'' [(''type'', ''continue'')] []) ob = Inr (ob\<lparr>tie := Some ''continue''\<rparr>)"
  "case_tied (Element ''tied'' [(''type'', ''stop'')] []) ob = Inr (ob\<lparr>tie := Some ''end''\<rparr>)"
  by (simp_all add: case_tied_def)

lemma case_tied_no_format_error: "case_tied e ob \<noteq> Inl (RuntimeError code msg)"
  by (simp add: case_tied_def split: option.splits)

lemma case_beam_rejects:
  "textContent e \<noteq> ''begin'' \<Longrightarrow> textContent e \<noteq> ''continue'' \<Longrightarrow> textContent e \<noteq> ''end'' \<Longrightarrow>
   case_beam e ob = Inl (RuntimeError ''AssertError'' (''Bad beam in MusicXML: '' @ textContent e))"
  by (simp add: case_beam_def Vex_Assert_def)

subsection \<open>\<^verbatim>\<open>getAttributes\<close> merges the snapshots in measure order\<close>

lemma getAttributes_0: "getAttributes st 0 p = storedSnapshot st 0 p"
  by (simp add: getAttributes_def storedSnapshot_def snapshot_def Vex_Merge_def
      split: option.splits)

lemma getAttributes_Suc:
  "getAttributes st (Suc m) p = Vex_Merge (getAttributes st m p) (storedSnapshot st (Suc m) p)"
  by (simp add: getAttributes_def storedSnapshot_def snapshot_def Vex_Merge_def
      split: option.splits)

lemma getAttributes_foldl:
  "getAttributes st m p =
     foldl Vex_Merge Map.empty (map (\<lambda>i. storedSnapshot st i p) [0..<Suc m])"
proof (induction m)
  case 0
  show ?case by (simp add: getAttributes_0 Vex_Merge_def)
next
  case (Suc m)
  have "getAttributes st (Suc m) p =
          Vex_Merge (getAttributes st m p) (storedSnapshot st (Suc m) p)"
    by (rule getAttributes_Suc)
  also have "\<dots> = foldl Vex_Merge Map.empty (map (\<lambda>i. storedSnapshot st i p) [0..<Suc (Suc m)])"
    using Suc.IH by simp
  finally show ?case .
qed

lemma getAttributes_field_Suc:
  "getAttributes st (Suc m) p name =
     (case storedSnapshot st (Suc m) p name of
        None \<Rightarrow> getAttributes st m p name
      | Some v \<Rightarrow> Some v)"
  by (simp add: getAttributes_Suc Vex_Merge_def map_add_def)

lemma getAttributes_latest:
  "i \<le> m \<Longrightarrow> storedSnapshot st i p name = Some v \<Longrightarrow>
   (\<forall>j. i < j \<and> j \<le> m \<longrightarrow> storedSnapshot st j p name = None) \<Longrightarrow>
   getAttributes st m p name = Some v"
proof (induction m)
  case 0
  then show ?case by (simp add: getAttributes_0)
next
  case (Suc m)
  show ?case
  proof (cases "i = Suc m")
    case True
    then show ?thesis using Suc.prems by (simp add: getAttributes_field_Suc)
  next
    case False
    then have "i \<le> m" using Suc.prems by simp
    moreover have "\<forall>j. i < j \<and> j \<le> m \<longrightarrow> storedSnapshot st j p name = None"
      using Suc.prems by simp
    ultimately have "getAttributes st m p name = Some v"
      using Suc.IH Suc.prems by blast
    moreover have "storedSnapshot st (Suc m) p name = None"
      using Suc.prems False by simp
    ultimately show ?thesis by (simp add: getAttributes_field_Suc)
  qed
qed

lemma getAttributes_unset:
  "(\<forall>i\<le>m. storedSnapshot st i p name = None) \<Longrightarrow> getAttributes st m p name = None"
  by (induction m) (simp_all add: getAttributes_0 getAttributes_field_Suc)

text \<open>
  Claim C3: the attributes returned for measure \<open>m\<close> and part \<open>p\<close> are the left-to-right
  merge of the snapshots stored for part \<open>p\<close> at the measures 0 to \<open>m\<close>; a field has the
  value of the latest of these snapshots that sets it (so a value is inherited until a
  later measure sets the field again, and from that measure on the new value holds), and
  a field that none of them sets is not set.
\<close>

theorem getAttributes_merge:
  "getAttributes st m p =
     foldl Vex_Merge Map.empty (map (\<lambda>i. storedSnapshot st i p) [0..<Suc m])
   \<and> (\<forall>i name v. i \<le> m \<longrightarrow> storedSnapshot st i p name = Some v \<longrightarrow>
         (\<forall>j. i < j \<and> j \<le> m \<longrightarrow> storedSnapshot st j p name = None) \<longrightarrow>
         getAttributes st m p name = Some v)
   \<and> (\<forall>name. (\<forall>i\<le>m. storedSnapshot st i p name = None) \<longrightarrow>
         getAttributes st m p name = None)"
  using getAttributes_foldl getAttributes_latest getAttributes_unset by blast

text \<open>
  The document \<open>timeChange\<close>: the time of measure 1 is the 3/4 of measure 0, the time of
  measure 3 is the 4/4 of measure 2, and the clef of measure 3 is the clef of measure 0.
\<close>

theorem getAttributes_merge_witness:
  "getAttributes (parsed timeChange) 1 0 ''time''
     = Some (Object [(''num_beats'', Number (Num 3)), (''beat_value'', Number (Num 4))])
   \<and> getAttributes (parsed timeChange) 3 0 ''time''
     = Some (Object [(''num_beats'', Number (Num 4)), (''beat_value'', Number (Num 4))])
   \<and> getAttributes (parsed timeChange) 3 0 ''clef'' = Some (String ''treble'')
   \<and> getAttributes (parsed timeChange) 3 0 ''key'' = None"
proof -
  let ?S = "parsed timeChange"
  let ?t34 = "Object [(''num_beats'', Number (Num 3)), (''beat_value'', Number (Num 4))]"
  let ?t44 = "Object [(''num_beats'', Number (Num 4)), (''beat_value'', Number (Num 4))]"
  have t0: "storedSnapshot ?S 0 0 ''time'' = Some ?t34" by code_simp
  have t1: "storedSnapshot ?S (Suc 0) 0 ''time'' = None" by code_simp
  have t2: "storedSnapshot ?S 2 0 ''time'' = Some ?t44" by code_simp
  have t3: "storedSnapshot ?S 3 0 ''time'' = None" by code_simp
  have c0: "storedSnapshot ?S 0 0 ''clef'' = Some (String ''treble'')" by code_simp
  have c1: "storedSnapshot ?S (Suc 0) 0 ''clef'' = None" by code_simp
  have c2: "storedSnapshot ?S 2 0 ''clef'' = None" by code_simp
  have c3: "storedSnapshot ?S 3 0 ''clef'' = None" by code_simp
  have k0: "storedSnapshot ?S 0 0 ''key'' = None" by code_simp
  have k1: "storedSnapshot ?S (Suc 0) 0 ''key'' = None" by code_simp
  have k2: "storedSnapshot ?S 2 0 ''key'' = None" by code_simp
  have k3: "storedSnapshot ?S 3 0 ''key'' = None" by code_simp
  have upto3: "j = 0 \<or> j = Suc 0 \<or> j = 2 \<or> j = 3" if "j \<le> 3" for j :: nat
    using that by arith
  note m1 = getAttributes_merge[of ?S 1 0, THEN conjunct2, THEN conjunct1, rule_format]
  note m3 = getAttributes_merge[of ?S 3 0, THEN conjunct2, THEN conjunct1, rule_format]
  note n3 = getAttributes_merge[of ?S 3 0, THEN conjunct2, THEN conjunct2, rule_format]
  have a: "getAttributes ?S 1 0 ''time'' = Some ?t34"
  proof (rule m1[of 0])
    show "(0::nat) \<le> 1" by simp
    show "storedSnapshot ?S 0 0 ''time'' = Some ?t34" by (rule t0)
    fix j :: nat
    assume "0 < j \<and> j \<le> 1"
    then have "j = Suc 0" by arith
    then show "storedSnapshot ?S j 0 ''time'' = None" using t1 by simp
  qed
  have b: "getAttributes ?S 3 0 ''time'' = Some ?t44"
  proof (rule m3[of 2])
    show "(2::nat) \<le> 3" by simp
    show "storedSnapshot ?S 2 0 ''time'' = Some ?t44" by (rule t2)
    fix j :: nat
    assume "2 < j \<and> j \<le> 3"
    then have "j = 3" by arith
    then show "storedSnapshot ?S j 0 ''time'' = None" using t3 by simp
  qed
  have c: "getAttributes ?S 3 0 ''clef'' = Some (String ''treble'')"
  proof (rule m3[of 0])
    show "(0::nat) \<le> 3" by simp
    show "storedSnapshot ?S 0 0 ''clef'' = Some (String ''treble'')" by (rule c0)
    fix j :: nat
    assume "0 < j \<and> j \<le> 3"
    then have "j = Suc 0 \<or> j = 2 \<or> j = 3" by arith
    then show "storedSnapshot ?S j 0 ''clef'' = None" using c1 c2 c3 by blast
  qed
  have d: "getAttributes ?S 3 0 ''key'' = None"
  proof (rule n3)
    fix i :: nat
    assume "i \<le> 3"
    then have "i = 0 \<or> i = Suc 0 \<or> i = 2 \<or> i = 3" by (rule upto3)
    then show "storedSnapshot ?S i 0 ''key'' = None" using k0 k1 k2 k3 by blast
  qed
  from a b c d show ?thesis by blast
qed

subsection \<open>What one child of a note element changes\<close>

lemma case_tied_fields:
  "case_tied e ob = Inr ob' \<Longrightarrow> chord ob' = chord ob \<and> rest ob' = rest ob \<and> keys ob' = keys ob
     \<and> intrinsicTicks ob' = intrinsicTicks ob \<and> tickMultiplier ob' = tickMultiplier ob
     \<and> tuplet ob' = tuplet ob"
  unfolding case_tied_def by (auto split: option.splits if_splits)

lemma notations_fields:
  "forEach notations_elem cs ob = Inr ob' \<Longrightarrow> chord ob' = chord ob \<and> rest ob' = rest ob
     \<and> keys ob' = keys ob \<and> intrinsicTicks ob' = intrinsicTicks ob
     \<and> tickMultiplier ob' = tickMultiplier ob \<and> tuplet ob' = tuplet ob"
proof (induction cs arbitrary: ob)
  case Nil
  then show ?case by simp
next
  case (Cons c cs)
  from Cons.prems obtain ob1 where s1: "notations_elem c ob = Inr ob1"
    and r: "forEach notations_elem cs ob1 = Inr ob'"
    by (auto split: sum.splits)
  have "chord ob1 = chord ob \<and> rest ob1 = rest ob \<and> keys ob1 = keys ob
     \<and> intrinsicTicks ob1 = intrinsicTicks ob \<and> tickMultiplier ob1 = tickMultiplier ob
     \<and> tuplet ob1 = tuplet ob"
    using s1 case_tied_fields[of c ob ob1]
    by (cases "nodeName c = ''tied''") (simp_all add: notations_elem_def)
  with Cons.IH[OF r] show ?case by simp
qed

lemma case_notations_fields:
  "case_notations c ob = Inr ob' \<Longrightarrow> chord ob' = chord ob \<and> rest ob' = rest ob
     \<and> keys ob' = keys ob \<and> intrinsicTicks ob' = intrinsicTicks ob
     \<and> tickMultiplier ob' = tickMultiplier ob \<and> tuplet ob' = tuplet ob"
  unfolding case_notations_def by (rule notations_fields)

lemma case_pitch_fields:
  "case_pitch c ob = Inr ob' \<Longrightarrow> chord ob' = chord ob \<and> rest ob' = rest ob
     \<and> (\<exists>k. keys ob' = Some [k]) \<and> intrinsicTicks ob' = intrinsicTicks ob
     \<and> tickMultiplier ob' = tickMultiplier ob \<and> tuplet ob' = tuplet ob"
  unfolding case_pitch_def Let_def by (auto split: option.splits)

lemma case_type_fields:
  "case_type c ob = Inr ob' \<Longrightarrow> chord ob' = chord ob \<and> rest ob' = rest ob \<and> keys ob' = keys ob
     \<and> intrinsicTicks ob' = intrinsicTicks ob \<and> tickMultiplier ob' = tickMultiplier ob
     \<and> tuplet ob' = tuplet ob"
  unfolding case_type_def Let_def by auto

lemma case_dot_fields:
  "case_dot ob = Inr ob' \<Longrightarrow> chord ob' = chord ob \<and> rest ob' = rest ob \<and> keys ob' = keys ob
     \<and> intrinsicTicks ob' = intrinsicTicks ob \<and> tickMultiplier ob' = tickMultiplier ob
     \<and> tuplet ob' = tuplet ob"
  unfolding case_dot_def by (auto split: option.splits)

lemma case_duration_fields:
  "case_duration R attrs c ob = Inr ob' \<Longrightarrow> chord ob' = chord ob \<and> rest ob' = rest ob
     \<and> keys ob' = keys ob \<and> tickMultiplier ob' = tickMultiplier ob \<and> tuplet ob' = tuplet ob"
  unfolding case_duration_def Let_def by (auto split: if_splits)

lemma case_beam_fields:
  "case_beam c ob = Inr ob' \<Longrightarrow> chord ob' = chord ob \<and> rest ob' = rest ob \<and> keys ob' = keys ob
     \<and> intrinsicTicks ob' = intrinsicTicks ob \<and> tickMultiplier ob' = tickMultiplier ob
     \<and> tuplet ob' = tuplet ob"
  unfolding case_beam_def Let_def by (auto split: sum.splits)

lemma case_rest_fields:
  "chord (case_rest c ob) = chord ob \<and> rest (case_rest c ob)
     \<and> keys (case_rest c ob) = (case restDisplayKey c of None \<Rightarrow> keys ob | Some k \<Rightarrow> Some [k])
     \<and> intrinsicTicks (case_rest c ob) = intrinsicTicks ob
     \<and> tickMultiplier (case_rest c ob) = tickMultiplier ob
     \<and> tuplet (case_rest c ob) = tuplet ob"
  unfolding case_rest_def restDisplayKey_def Let_def by (simp split: option.splits)

lemma case_voice_fields:
  "chord (case_voice c ob) = chord ob \<and> rest (case_voice c ob) = rest ob
     \<and> keys (case_voice c ob) = keys ob
     \<and> intrinsicTicks (case_voice c ob) = intrinsicTicks ob
     \<and> tickMultiplier (case_voice c ob) = tickMultiplier ob
     \<and> tuplet (case_voice c ob) = tuplet ob"
  unfolding case_voice_def by (simp split: jsnum.splits)

lemma case_staff_fields:
  "chord (case_staff c ob) = chord ob \<and> rest (case_staff c ob) = rest ob
     \<and> keys (case_staff c ob) = keys ob
     \<and> intrinsicTicks (case_staff c ob) = intrinsicTicks ob
     \<and> tickMultiplier (case_staff c ob) = tickMultiplier ob
     \<and> tuplet (case_staff c ob) = tuplet ob"
  unfolding case_staff_def by (simp split: jsnum.splits)

lemma case_stem_fields:
  "chord (case_stem c ob) = chord ob \<and> rest (case_stem c ob) = rest ob
     \<and> keys (case_stem c ob) = keys ob
     \<and> intrinsicTicks (case_stem c ob) = intrinsicTicks ob
     \<and> tickMultiplier (case_stem c ob) = tickMultiplier ob
     \<and> tuplet (case_stem c ob) = tuplet ob"
  unfolding case_stem_def by simp

lemma withObj_Inr: "withObj tm r = Inr st' \<Longrightarrow> r = Inr (fst st') \<and> snd st' = tm"
  unfolding withObj_def by (auto split: sum.splits)

lemma elem_cases:
  assumes "parseNote_elem R attrs c st = Inr st'"
  obtains
    (pitch) "nodeName c = ''pitch''" "snd st' = snd st" "case_pitch c (fst st) = Inr (fst st')"
  | (type) "nodeName c = ''type''" "snd st' = snd st" "case_type c (fst st) = Inr (fst st')"
  | (dot) "nodeName c = ''dot''" "snd st' = snd st" "case_dot (fst st) = Inr (fst st')"
  | (duration) "nodeName c = ''duration''" "snd st' = snd st"
      "case_duration R attrs c (fst st) = Inr (fst st')"
  | (tm) "nodeName c = ''time-modification''" "snd st' = case_time_modification c"
      "fst st' = fst st"
  | (rest) "nodeName c = ''rest''" "snd st' = snd st" "fst st' = case_rest c (fst st)"
  | (chord) "nodeName c = ''chord''" "snd st' = snd st" "fst st' = (fst st)\<lparr>chord := True\<rparr>"
  | (voice) "nodeName c = ''voice''" "snd st' = snd st" "fst st' = case_voice c (fst st)"
  | (staff) "nodeName c = ''staff''" "snd st' = snd st" "fst st' = case_staff c (fst st)"
  | (stem) "nodeName c = ''stem''" "snd st' = snd st" "fst st' = case_stem c (fst st)"
  | (beam) "nodeName c = ''beam''" "snd st' = snd st" "case_beam c (fst st) = Inr (fst st')"
  | (notations) "nodeName c = ''notations''" "snd st' = snd st"
      "case_notations c (fst st) = Inr (fst st')"
  | (other) "nodeName c \<notin> {''pitch'', ''type'', ''dot'', ''duration'', ''time-modification'',
       ''rest'', ''chord'', ''voice'', ''staff'', ''stem'', ''beam'', ''notations''}" "st' = st"
  using assms unfolding parseNote_elem_def Let_def
  by (auto split: if_splits dest!: withObj_Inr)

text \<open>
  One child sets the chord flag only when it is a \<^verbatim>\<open>chord\<close> element and the rest
  flag only when it is a \<^verbatim>\<open>rest\<close> element; only \<^verbatim>\<open>time-modification\<close> changes the
  two tuplet variables, only \<^verbatim>\<open>duration\<close> the ticks, only \<^verbatim>\<open>pitch\<close> and \<^verbatim>\<open>rest\<close>
  the keys; none sets \<open>tickMultiplier\<close> or \<open>tuplet\<close>.
\<close>

lemma elem_fields:
  assumes "parseNote_elem R attrs c st = Inr st'"
  shows "chord (fst st') = (chord (fst st) \<or> nodeName c = ''chord'')
    \<and> rest (fst st') = (rest (fst st) \<or> nodeName c = ''rest'')
    \<and> snd st' = (if nodeName c = ''time-modification'' then case_time_modification c else snd st)
    \<and> (nodeName c \<noteq> ''duration'' \<longrightarrow> intrinsicTicks (fst st') = intrinsicTicks (fst st))
    \<and> (nodeName c = ''duration'' \<longrightarrow> case_duration R attrs c (fst st) = Inr (fst st'))
    \<and> tickMultiplier (fst st') = tickMultiplier (fst st)
    \<and> tuplet (fst st') = tuplet (fst st)
    \<and> (nodeName c = ''pitch'' \<longrightarrow> (\<exists>k. keys (fst st') = Some [k]))
    \<and> (nodeName c \<noteq> ''pitch'' \<longrightarrow>
         keys (fst st') = (if nodeName c = ''rest''
                           then (case restDisplayKey c of None \<Rightarrow> keys (fst st)
                                                        | Some k \<Rightarrow> Some [k])
                           else keys (fst st)))"
  using assms
proof (cases rule: elem_cases)
  case pitch then show ?thesis using case_pitch_fields[of c "fst st" "fst st'"] by simp
next
  case type then show ?thesis using case_type_fields[of c "fst st" "fst st'"] by simp
next
  case dot then show ?thesis using case_dot_fields[of "fst st" "fst st'"]  by simp
next
  case duration
  then show ?thesis using case_duration_fields[of R attrs c "fst st" "fst st'"] by simp
next
  case tm then show ?thesis by simp
next
  case rest then show ?thesis using case_rest_fields[of c "fst st"] by simp
next
  case chord then show ?thesis by simp
next
  case voice then show ?thesis using case_voice_fields[of c "fst st"] by simp
next
  case staff then show ?thesis using case_staff_fields[of c "fst st"] by simp
next
  case stem then show ?thesis using case_stem_fields[of c "fst st"] by simp
next
  case beam then show ?thesis using case_beam_fields[of c "fst st" "fst st'"] by simp
next
  case notations
  then show ?thesis using case_notations_fields[of c "fst st" "fst st'"] by simp
next
  case other then show ?thesis by simp
qed

lemma forEach_Cons_Inr:
  "forEach f (x # xs) s = Inr s' \<Longrightarrow> \<exists>s1. f x s = Inr s1 \<and> forEach f xs s1 = Inr s'"
  by (auto split: sum.splits)

text \<open>The state after all children of a note element.\<close>

lemma children_fields:
  "forEach (parseNote_elem R attrs) cs st = Inr st' \<Longrightarrow>
     chord (fst st') = (chord (fst st) \<or> (\<exists>c\<in>set cs. nodeName c = ''chord''))
   \<and> rest (fst st') = (rest (fst st) \<or> (\<exists>c\<in>set cs. nodeName c = ''rest''))
   \<and> snd st' = (case lastNamed ''time-modification'' cs of
                   None \<Rightarrow> snd st | Some t \<Rightarrow> case_time_modification t)
   \<and> tickMultiplier (fst st') = tickMultiplier (fst st)
   \<and> tuplet (fst st') = tuplet (fst st)"
proof (induction cs arbitrary: st)
  case Nil
  then show ?case by simp
next
  case (Cons c cs)
  from forEach_Cons_Inr[OF Cons.prems] obtain s1
    where s1: "parseNote_elem R attrs c st = Inr s1"
      and r: "forEach (parseNote_elem R attrs) cs s1 = Inr st'" by blast
  note e = elem_fields[OF s1]
  note ih = Cons.IH[OF r]
  have 1: "chord (fst st') = (chord (fst st) \<or> (\<exists>c\<in>set (c # cs). nodeName c = ''chord''))"
    using e ih by auto
  have 2: "rest (fst st') = (rest (fst st) \<or> (\<exists>c\<in>set (c # cs). nodeName c = ''rest''))"
    using e ih by auto
  have 3: "snd st' = (case lastNamed ''time-modification'' (c # cs) of
                   None \<Rightarrow> snd st | Some t \<Rightarrow> case_time_modification t)"
    using e ih by (simp split: option.splits)
  have 4: "tickMultiplier (fst st') = tickMultiplier (fst st)" using e ih by simp
  have 5: "tuplet (fst st') = tuplet (fst st)" using e ih by simp
  from 1 2 3 4 5 show ?case by blast
qed



lemma children_ticks:
  "forEach (parseNote_elem R attrs) cs st = Inr st' \<Longrightarrow>
   (case lastNamed ''duration'' cs of
      None \<Rightarrow> intrinsicTicks (fst st') = intrinsicTicks (fst st)
    | Some d \<Rightarrow> (\<exists>ob0 ob1. case_duration R attrs d ob0 = Inr ob1
                   \<and> intrinsicTicks (fst st') = intrinsicTicks ob1))"
proof (induction cs arbitrary: st)
  case Nil
  then show ?case by simp
next
  case (Cons c cs)
  from forEach_Cons_Inr[OF Cons.prems(1)] obtain s1
    where s1: "parseNote_elem R attrs c st = Inr s1"
      and r: "forEach (parseNote_elem R attrs) cs s1 = Inr st'" by blast
  note e = elem_fields[OF s1]
  note ih = Cons.IH[OF r]
  show ?case
  proof (cases "lastNamed ''duration'' cs")
    case (Some d)
    then show ?thesis using ih by simp
  next
    case None
    then have l: "intrinsicTicks (fst st') = intrinsicTicks (fst s1)" using ih by simp
    show ?thesis
    proof (cases "nodeName c = ''duration''")
      case True
      then have "case_duration R attrs c (fst st) = Inr (fst s1)" using e by blast
      then show ?thesis using None True l by auto
    next
      case False
      then show ?thesis using None l e by simp
    qed
  qed
qed

subsection \<open>Tuplets\<close>

lemma finish_tuplet:
  "tickMultiplier (parseNote_finish attrs st) =
     (if truthy (fst (snd st)) \<and> truthy (snd (snd st))
      then Some (Fraction (snd (snd st)) (fst (snd st)))
      else Some (Fraction (Number (Num 1)) (Number (Num 1))))
   \<and> tuplet (parseNote_finish attrs st) =
     (if truthy (fst (snd st)) \<and> truthy (snd (snd st))
      then Some \<lparr>num_notes = fst (snd st), beats_occupied = snd (snd st)\<rparr>
      else None)"
  unfolding parseNote_finish_def Let_def by simp

lemma time_modification_counts:
  "case_time_modification t =
     (case tupletCounts t of
        Some (x, y) \<Rightarrow> (Number (Num x), Number (Num y))
      | None \<Rightarrow> case_time_modification t)
   \<and> (truthy (fst (case_time_modification t)) \<and> truthy (snd (case_time_modification t)))
       = (tupletCounts t \<noteq> None)"
  unfolding case_time_modification_def tupletCounts_def elemOrUndefined_def parseIntOf_def Let_def
  by (simp split: option.splits jsnum.splits)

lemma parseNote_Inr:
  "parseNote R noteElem attrs = Inr ob \<Longrightarrow>
   \<exists>st'. forEach (parseNote_elem R attrs) (childNodes noteElem) (newNoteObj, Null, Null) = Inr st'
        \<and> ob = parseNote_finish attrs st'"
  unfolding parseNote_def by (auto split: sum.splits)

text \<open>
  Claim C6, amended: the counts that decide are those of the last \<^verbatim>\<open>time-modification\<close>
  child, and they count only when both are numbers other than 0 (the source tests
  \<^verbatim>\<open>num_notes && beats_occupied\<close> on the parsed numbers). Then \<open>tickMultiplier\<close> is the
  fraction normal notes over actual notes and the tuplet descriptor holds both counts;
  in every other case \<open>tickMultiplier\<close> is 1/1 and there is no tuplet descriptor.
\<close>

theorem tuplet_ratio:
  "parseNote RESOLUTION noteElem attrs = Inr ob \<Longrightarrow>
    (case noteTupletCounts noteElem of
       Some (x, y) \<Rightarrow>
         tickMultiplier ob = Some (Fraction (Number (Num y)) (Number (Num x)))
         \<and> tuplet ob = Some \<lparr>num_notes = Number (Num x), beats_occupied = Number (Num y)\<rparr>
     | None \<Rightarrow>
         tickMultiplier ob = Some (Fraction (Number (Num 1)) (Number (Num 1)))
         \<and> tuplet ob = None)"
proof -
  assume "parseNote RESOLUTION noteElem attrs = Inr ob"
  from parseNote_Inr[OF this] obtain st'
    where f: "forEach (parseNote_elem RESOLUTION attrs) (childNodes noteElem) (newNoteObj, Null, Null) = Inr st'"
      and o: "ob = parseNote_finish attrs st'" by blast
  have s: "snd st' = (case lastNamed ''time-modification'' (childNodes noteElem) of
                   None \<Rightarrow> (Null, Null) | Some t \<Rightarrow> case_time_modification t)"
    using children_fields[OF f] by (simp cong: option.case_cong)
  show ?thesis
  proof (cases "lastNamed ''time-modification'' (childNodes noteElem)")
    case None
    then have "snd st' = (Null, Null)" using s by simp
    then show ?thesis using None o finish_tuplet[of attrs st']
      by (simp add: noteTupletCounts_def)
  next
    case (Some t)
    then have st: "snd st' = case_time_modification t" using s by simp
    show ?thesis
    proof (cases "tupletCounts t")
      case None
      then have "\<not> (truthy (fst (snd st')) \<and> truthy (snd (snd st')))"
        using st time_modification_counts[of t] by simp
      then show ?thesis using None Some o finish_tuplet[of attrs st']
        by (auto simp: noteTupletCounts_def)
    next
      case (Some xy)
      obtain x y where xy: "xy = (x, y)" by (cases xy)
      have v: "snd st' = (Number (Num x), Number (Num y))"
        using st Some xy time_modification_counts[of t] by simp
      have "x \<noteq> 0 \<and> y \<noteq> 0"
        using Some xy unfolding tupletCounts_def
        by (auto split: option.splits jsnum.splits if_splits)
      then show ?thesis using v Some xy \<open>lastNamed ''time-modification'' (childNodes noteElem) = Some t\<close>
          o finish_tuplet[of attrs st']
        by (simp add: noteTupletCounts_def)
    qed
  qed
qed

subsection \<open>Rests\<close>

lemma restClef_stave: "stave ob' = stave ob \<Longrightarrow> restClef attrs ob' = restClef attrs ob"
  unfolding restClef_def by (simp cong: jsval.case_cong)

lemma finish_keys:
  "rest (parseNote_finish attrs st) = rest (fst st)
   \<and> stave (parseNote_finish attrs st) = stave (fst st)
   \<and> chord (parseNote_finish attrs st) = chord (fst st)
   \<and> intrinsicTicks (parseNote_finish attrs st) = intrinsicTicks (fst st)
   \<and> keys (parseNote_finish attrs st) =
       (if rest (fst st) \<and> keys (fst st) = None
        then (if restClef attrs (fst st) = String ''bass'' then Some [''D/3''] else Some [''B/4''])
        else keys (fst st))"
  unfolding parseNote_finish_def Let_def
  by (simp add: restClef_stave[of "(fst st)\<lparr>tickMultiplier := a, tuplet := b\<rparr>" "fst st" for a b])


subsection \<open>Ticks\<close>

lemma simplify_numbers:
  assumes "k \<noteq> 0"
  shows "simplify (Fraction (Number (Num n)) (Number (Num k))) =
           Fraction (Number (Num (sgn k * (n div gcd n k)))) (Number (Num (sgn k * (k div gcd n k))))"
  using assms unfolding simplify_def Fraction_def by simp

lemma reduced_terms:
  fixes n k :: int
  assumes "k \<noteq> 0"
  defines "a \<equiv> sgn k * (n div gcd n k)" and "b \<equiv> sgn k * (k div gcd n k)"
  shows "coprime a b" and "0 < b" and "a * k = n * b"
proof -
  let ?g = "gcd n k"
  have gpos: "0 < ?g" using assms(1) by simp
  have gn: "?g dvd n" and gk: "?g dvd k" by simp_all
  have c: "coprime (n div ?g) (k div ?g)"
    using assms(1) by (simp add: div_gcd_coprime)
  have s: "sgn k = 1 \<or> sgn k = - 1" using assms(1) by (cases "k > 0") simp_all
  then show "coprime a b"
    unfolding a_def b_def using c by auto
  show "0 < b"
  proof (cases "k > 0")
    case True
    then have "?g \<le> k" using gk by (simp add: zdvd_imp_le)
    then have "0 < k div ?g" using gpos by (simp add: pos_imp_zdiv_pos_iff)
    then show ?thesis unfolding b_def using True by simp
  next
    case False
    then have kn: "k < 0" using assms(1) by simp
    then have "k div ?g < 0" using gpos by (simp add: div_neg_pos_less0)
    then show ?thesis unfolding b_def using kn by simp
  qed
  have "(n div ?g) * k = n * (k div ?g)"
    using gn gk by (metis div_mult_swap dvd_div_mult mult.commute)
  then show "a * k = n * b"
    unfolding a_def b_def by (simp add: mult.assoc mult.left_commute)
qed

lemma toInt_Some: "toInt v = Some k \<Longrightarrow> v = Number (Num k)"
  by (cases v rule: toInt.cases) simp_all

lemma simplify_NaN:
  "(isNaN (numerator (simplify (Fraction (Number (Num n)) v)))
     \<or> isNaN (denominator (simplify (Fraction (Number (Num n)) v))))
   = (\<not> (\<exists>k. v = Number (Num k) \<and> k \<noteq> 0))"
proof (cases "toInt v")
  case None
  then have "\<not> (\<exists>k. v = Number (Num k) \<and> k \<noteq> 0)" by auto
  then show ?thesis using None unfolding simplify_def Fraction_def by simp
next
  case (Some k)
  then have v: "v = Number (Num k)" by (rule toInt_Some)
  show ?thesis unfolding v simplify_def Fraction_def by simp
qed

lemma case_duration_result:
  assumes "parseInt (textContent e) = Num d"
  shows "case_duration R attrs e ob =
    (if isNaN (numerator (simplify (rawTicks R attrs d)))
        \<or> isNaN (denominator (simplify (rawTicks R attrs d)))
     then Inl (RuntimeError ''InvalidMusicXML'' ''Error parsing MusicXML duration'')
     else Inr (ob\<lparr>intrinsicTicks :=
                 Some (if denominator (simplify (rawTicks R attrs d)) = Number (Num 1)
                       then TicksNumber (numerator (simplify (rawTicks R attrs d)))
                       else TicksFraction (simplify (rawTicks R attrs d)))\<rparr>))"
  using assms unfolding case_duration_def rawTicks_def Let_def by simp

lemma case_duration_ticks:
  assumes "parseInt (textContent e) = Num d" and "case_duration R attrs e ob0 = Inr ob1"
  shows "\<exists>k. property attrs ''divisions'' = Number (Num k) \<and> k \<noteq> 0
     \<and> intrinsicTicks ob1 =
         Some (ticksOf (sgn k * ((R div 4 * d) div gcd (R div 4 * d) k))
                       (sgn k * (k div gcd (R div 4 * d) k)))"
proof -
  have nn: "\<not> (isNaN (numerator (simplify (rawTicks R attrs d)))
        \<or> isNaN (denominator (simplify (rawTicks R attrs d))))"
    using assms case_duration_result[OF assms(1), of R attrs ob0] by (auto split: if_splits)
  then obtain k where k: "property attrs ''divisions'' = Number (Num k)" "k \<noteq> 0"
    using simplify_NaN[of "R div 4 * d" "property attrs ''divisions''"]
    unfolding rawTicks_def by blast
  have "simplify (rawTicks R attrs d) =
      Fraction (Number (Num (sgn k * ((R div 4 * d) div gcd (R div 4 * d) k))))
               (Number (Num (sgn k * (k div gcd (R div 4 * d) k))))"
    unfolding rawTicks_def k(1) by (rule simplify_numbers[OF k(2)])
  then have "intrinsicTicks ob1 =
         Some (ticksOf (sgn k * ((R div 4 * d) div gcd (R div 4 * d) k))
                       (sgn k * (k div gcd (R div 4 * d) k)))"
    using assms(2) nn case_duration_result[OF assms(1), of R attrs ob0]
    by (auto simp: ticksOf_def Fraction_def split: if_splits)
  with k show ?thesis by blast
qed

text \<open>
  Claim C5, amended in its example: for a note element whose last \<^verbatim>\<open>duration\<close> child
  holds the integer \<open>d\<close>, a decoded event has the ticks \<open>a/b\<close>, the fraction
  \<open>(RESOLUTION div 4 * d) / k\<close> in lowest terms for the divisions \<open>k\<close> (\<open>a\<close> and \<open>b\<close>
  coprime, \<open>b\<close> positive), as the plain number \<open>a\<close> when \<open>b = 1\<close>; the \<^verbatim>\<open>duration\<close> case
  raises the invalid-duration error exactly when the simplified numerator or denominator
  is not a number, which is exactly when the divisions are absent, not a number or zero,
  and then the note is not decoded; with divisions 4 and duration 4 the ticks are the
  plain number \<open>RESOLUTION div 4\<close>.
\<close>

theorem duration_ticks:
  assumes "lastNamed ''duration'' (childNodes noteElem) = Some e"
    and "parseInt (textContent e) = Num d"
  shows "(parseNote RESOLUTION noteElem attrs = Inr ob \<longrightarrow>
           (\<exists>k a b. property attrs ''divisions'' = Number (Num k) \<and> k \<noteq> 0
              \<and> coprime a b \<and> 0 < b \<and> a * k = (RESOLUTION div 4 * d) * b
              \<and> intrinsicTicks ob = Some (ticksOf a b)))
    \<and> ((case_duration RESOLUTION attrs e ob0
           = Inl (RuntimeError ''InvalidMusicXML'' ''Error parsing MusicXML duration''))
         = (isNaN (numerator (simplify (rawTicks RESOLUTION attrs d)))
            \<or> isNaN (denominator (simplify (rawTicks RESOLUTION attrs d)))))
    \<and> ((isNaN (numerator (simplify (rawTicks RESOLUTION attrs d)))
            \<or> isNaN (denominator (simplify (rawTicks RESOLUTION attrs d))))
         = (\<not> (\<exists>k. property attrs ''divisions'' = Number (Num k) \<and> k \<noteq> 0)))
    \<and> (\<not> (\<exists>k. property attrs ''divisions'' = Number (Num k) \<and> k \<noteq> 0) \<longrightarrow>
           (\<exists>err. parseNote RESOLUTION noteElem attrs = Inl err))
    \<and> (parseNote RESOLUTION noteElem attrs = Inr ob \<longrightarrow>
         property attrs ''divisions'' = Number (Num 4) \<longrightarrow> d = 4 \<longrightarrow>
           intrinsicTicks ob = Some (TicksNumber (Number (Num (RESOLUTION div 4)))))"
proof -
  have decoded: "\<exists>k. property attrs ''divisions'' = Number (Num k) \<and> k \<noteq> 0
     \<and> intrinsicTicks ob' =
         Some (ticksOf (sgn k * ((RESOLUTION div 4 * d) div gcd (RESOLUTION div 4 * d) k))
                       (sgn k * (k div gcd (RESOLUTION div 4 * d) k)))"
    if p: "parseNote RESOLUTION noteElem attrs = Inr ob'" for ob'
  proof -
    from parseNote_Inr[OF p] obtain st'
      where f: "forEach (parseNote_elem RESOLUTION attrs) (childNodes noteElem) (newNoteObj, Null, Null) = Inr st'"
        and o: "ob' = parseNote_finish attrs st'" by blast
    from children_ticks[OF f] assms(1) obtain ob0 ob1
      where cd: "case_duration RESOLUTION attrs e ob0 = Inr ob1"
        and it: "intrinsicTicks (fst st') = intrinsicTicks ob1" by auto
    have "intrinsicTicks ob' = intrinsicTicks ob1"
      using o it finish_keys[of attrs st'] by simp
    then show ?thesis using case_duration_ticks[OF assms(2) cd] by simp
  qed
  have 1: "parseNote RESOLUTION noteElem attrs = Inr ob \<longrightarrow>
           (\<exists>k a b. property attrs ''divisions'' = Number (Num k) \<and> k \<noteq> 0
              \<and> coprime a b \<and> 0 < b \<and> a * k = (RESOLUTION div 4 * d) * b
              \<and> intrinsicTicks ob = Some (ticksOf a b))"
  proof
    assume "parseNote RESOLUTION noteElem attrs = Inr ob"
    from decoded[OF this] obtain k where k: "property attrs ''divisions'' = Number (Num k)" "k \<noteq> 0"
      "intrinsicTicks ob =
         Some (ticksOf (sgn k * ((RESOLUTION div 4 * d) div gcd (RESOLUTION div 4 * d) k))
                       (sgn k * (k div gcd (RESOLUTION div 4 * d) k)))" by blast
    show "\<exists>k a b. property attrs ''divisions'' = Number (Num k) \<and> k \<noteq> 0
              \<and> coprime a b \<and> 0 < b \<and> a * k = (RESOLUTION div 4 * d) * b
              \<and> intrinsicTicks ob = Some (ticksOf a b)"
      using k reduced_terms[OF k(2), of "RESOLUTION div 4 * d"] by blast
  qed
  have 2: "(case_duration RESOLUTION attrs e ob0
           = Inl (RuntimeError ''InvalidMusicXML'' ''Error parsing MusicXML duration''))
         = (isNaN (numerator (simplify (rawTicks RESOLUTION attrs d)))
            \<or> isNaN (denominator (simplify (rawTicks RESOLUTION attrs d))))"
    using case_duration_result[OF assms(2), of RESOLUTION attrs ob0] by simp
  have 3: "(isNaN (numerator (simplify (rawTicks RESOLUTION attrs d)))
            \<or> isNaN (denominator (simplify (rawTicks RESOLUTION attrs d))))
         = (\<not> (\<exists>k. property attrs ''divisions'' = Number (Num k) \<and> k \<noteq> 0))"
    unfolding rawTicks_def by (rule simplify_NaN)
  have 4: "\<not> (\<exists>k. property attrs ''divisions'' = Number (Num k) \<and> k \<noteq> 0) \<longrightarrow>
           (\<exists>err. parseNote RESOLUTION noteElem attrs = Inl err)"
  proof
    assume n: "\<not> (\<exists>k. property attrs ''divisions'' = Number (Num k) \<and> k \<noteq> 0)"
    show "\<exists>err. parseNote RESOLUTION noteElem attrs = Inl err"
    proof (cases "parseNote RESOLUTION noteElem attrs")
      case (Inl err)
      then show ?thesis by blast
    next
      case (Inr ob')
      from decoded[OF this] n show ?thesis by blast
    qed
  qed
  have 5: "parseNote RESOLUTION noteElem attrs = Inr ob \<longrightarrow>
         property attrs ''divisions'' = Number (Num 4) \<longrightarrow> d = 4 \<longrightarrow>
           intrinsicTicks ob = Some (TicksNumber (Number (Num (RESOLUTION div 4))))"
  proof (intro impI)
    assume p: "parseNote RESOLUTION noteElem attrs = Inr ob"
      and v: "property attrs ''divisions'' = Number (Num 4)" and d4: "d = 4"
    from decoded[OF p] v have
      "intrinsicTicks ob =
         Some (ticksOf (sgn 4 * ((RESOLUTION div 4 * d) div gcd (RESOLUTION div 4 * d) 4))
                       (sgn 4 * (4 div gcd (RESOLUTION div 4 * d) 4)))" by auto
    moreover have "gcd (RESOLUTION div 4 * d) 4 = 4" unfolding d4 by simp
    ultimately show "intrinsicTicks ob = Some (TicksNumber (Number (Num (RESOLUTION div 4))))"
      unfolding d4 by (simp add: ticksOf_def)
  qed
  from 1 2 3 4 5 show ?thesis by blast
qed

subsection \<open>The examples of the tick, tuplet and rest properties\<close>

lemma quarterNote_decoded:
  "parseNote 16384 quarterNote divisions4 =
     Inr (newNoteObj\<lparr>keys := Some [''C/4''], duration := Some ''4'',
            intrinsicTicks := Some (TicksNumber (Number (Num 4096))),
            tickMultiplier := Some (Fraction (Number (Num 1)) (Number (Num 1)))\<rparr>)"
  by code_simp

text \<open>
  Claim C5 as stated gives, for divisions 4 and the raw duration 4, the ticks
  \<open>RESOLUTION\<close>. With VexFlow's resolution 16384 the decoded ticks are 4096, a quarter
  of it.
\<close>

theorem duration_ticks_counterexample:
  "map_option intrinsicTicks (decoded 16384 quarterNote divisions4)
     = Some (Some (TicksNumber (Number (Num 4096))))
   \<and> map_option intrinsicTicks (decoded 16384 quarterNote divisions4)
     \<noteq> Some (Some (TicksNumber (Number (Num 16384))))"
  by code_simp

theorem duration_ticks_witness:
  "lastNamed ''duration'' (childNodes quarterNote) = Some (Element ''duration'' [] [Text ''4''])
   \<and> parseInt (textContent (Element ''duration'' [] [Text ''4''])) = Num 4
   \<and> property divisions4 ''divisions'' = Number (Num 4)
   \<and> map_option intrinsicTicks (decoded 16384 quarterNote divisions4)
       = Some (Some (TicksNumber (Number (Num (16384 div 4)))))"
proof -
  let ?ob = "newNoteObj\<lparr>keys := Some [''C/4''], duration := Some ''4'',
            intrinsicTicks := Some (TicksNumber (Number (Num 4096))),
            tickMultiplier := Some (Fraction (Number (Num 1)) (Number (Num 1)))\<rparr>"
  have l: "lastNamed ''duration'' (childNodes quarterNote) = Some (Element ''duration'' [] [Text ''4''])"
    by code_simp
  have p: "parseInt (textContent (Element ''duration'' [] [Text ''4''])) = Num 4"
    by code_simp
  have v: "property divisions4 ''divisions'' = Number (Num 4)"
    by (simp add: divisions4_def property_def)
  have r: "parseNote 16384 quarterNote divisions4 = Inr ?ob"
    by (rule quarterNote_decoded)
  have "intrinsicTicks ?ob = Some (TicksNumber (Number (Num (16384 div 4))))"
    using duration_ticks[OF l p, of 16384 divisions4 ?ob] r v by blast
  then have "map_option intrinsicTicks (decoded 16384 quarterNote divisions4)
       = Some (Some (TicksNumber (Number (Num (16384 div 4)))))"
    unfolding decoded_def r by simp
  with l p v show ?thesis by blast
qed

lemma zeroNormalNotes_decoded:
  "parseNote 16384 zeroNormalNotes Map.empty =
     Inr (newNoteObj\<lparr>keys := Some [''C/4''],
            tickMultiplier := Some (Fraction (Number (Num 1)) (Number (Num 1)))\<rparr>)"
  by code_simp

text \<open>
  Claim C6 as stated gives, for a \<^verbatim>\<open>time-modification\<close> that supplies the counts 3
  and 0, the multiplier 0/3 and a tuplet descriptor. The source tests the parsed counts
  for truth, and 0 is false: the multiplier is 1/1 and there is no descriptor.
\<close>

theorem tuplet_ratio_counterexample:
  "map_option tickMultiplier (decoded 16384 zeroNormalNotes Map.empty)
     = Some (Some (Fraction (Number (Num 1)) (Number (Num 1))))
   \<and> Fraction (Number (Num 1)) (Number (Num 1)) \<noteq> Fraction (Number (Num 0)) (Number (Num 3))
   \<and> map_option tuplet (decoded 16384 zeroNormalNotes Map.empty) = Some None"
  by code_simp

lemma tripletNote_decoded:
  "parseNote 16384 tripletNote Map.empty =
     Inr (newNoteObj\<lparr>keys := Some [''C/4''],
            tickMultiplier := Some (Fraction (Number (Num 2)) (Number (Num 3))),
            tuplet := Some \<lparr>num_notes = Number (Num 3), beats_occupied = Number (Num 2)\<rparr>\<rparr>)"
  by code_simp

theorem tuplet_ratio_witness:
  "noteTupletCounts tripletNote = Some (3, 2)
   \<and> map_option tickMultiplier (decoded 16384 tripletNote Map.empty)
       = Some (Some (Fraction (Number (Num 2)) (Number (Num 3))))
   \<and> map_option tuplet (decoded 16384 tripletNote Map.empty)
       = Some (Some \<lparr>num_notes = Number (Num 3), beats_occupied = Number (Num 2)\<rparr>)
   \<and> noteTupletCounts quarterNote = None
   \<and> map_option tickMultiplier (decoded 16384 quarterNote divisions4)
       = Some (Some (Fraction (Number (Num 1)) (Number (Num 1))))
   \<and> map_option tuplet (decoded 16384 quarterNote divisions4) = Some None"
proof -
  let ?ob = "newNoteObj\<lparr>keys := Some [''C/4''],
            tickMultiplier := Some (Fraction (Number (Num 2)) (Number (Num 3))),
            tuplet := Some \<lparr>num_notes = Number (Num 3), beats_occupied = Number (Num 2)\<rparr>\<rparr>"
  let ?q = "newNoteObj\<lparr>keys := Some [''C/4''], duration := Some ''4'',
            intrinsicTicks := Some (TicksNumber (Number (Num 4096))),
            tickMultiplier := Some (Fraction (Number (Num 1)) (Number (Num 1)))\<rparr>"
  have c: "noteTupletCounts tripletNote = Some (3, 2)" by code_simp
  have cq: "noteTupletCounts quarterNote = None" by code_simp
  have "tickMultiplier ?ob = Some (Fraction (Number (Num 2)) (Number (Num 3)))
     \<and> tuplet ?ob = Some \<lparr>num_notes = Number (Num 3), beats_occupied = Number (Num 2)\<rparr>"
    using tuplet_ratio[OF tripletNote_decoded] c by simp
  then have t: "map_option tickMultiplier (decoded 16384 tripletNote Map.empty)
       = Some (Some (Fraction (Number (Num 2)) (Number (Num 3))))
     \<and> map_option tuplet (decoded 16384 tripletNote Map.empty)
       = Some (Some \<lparr>num_notes = Number (Num 3), beats_occupied = Number (Num 2)\<rparr>)"
    unfolding decoded_def tripletNote_decoded by simp
  have "tickMultiplier ?q = Some (Fraction (Number (Num 1)) (Number (Num 1))) \<and> tuplet ?q = None"
    using tuplet_ratio[OF quarterNote_decoded] cq by simp
  then have q: "map_option tickMultiplier (decoded 16384 quarterNote divisions4)
       = Some (Some (Fraction (Number (Num 1)) (Number (Num 1))))
     \<and> map_option tuplet (decoded 16384 quarterNote divisions4) = Some None"
    unfolding decoded_def quarterNote_decoded by simp
  from c cq t q show ?thesis by blast
qed



subsection \<open>Placing a decoded note in its voice\<close>

lemma noteVoice_fst: "fst (noteVoice ob part) = voiceNumOf ob"
  unfolding noteVoice_def voiceNumOf_def by (simp split: option.splits)

lemma noteVoice_obj:
  "chord (fst (snd (noteVoice ob part))) = chord ob
   \<and> keys (fst (snd (noteVoice ob part))) = keys ob
   \<and> stave (fst (snd (noteVoice ob part))) = stave ob"
  unfolding noteVoice_def by (simp split: option.splits)

lemma noteVoice_part:
  "voices (snd (snd (noteVoice ob part))) = voices part
   \<and> part_time (snd (snd (noteVoice ob part))) = part_time part"
  unfolding noteVoice_def setNumberOfVoices_def by (simp split: option.splits)

lemma getVoice_noteVoice: "getVoice (snd (snd (noteVoice ob part))) i = getVoice part i"
  unfolding getVoice_def using noteVoice_part[of ob part] by simp

lemma getVoice_setVoice: "getVoice (setVoice i vo part) j = (if j = i then vo else getVoice part j)"
  unfolding getVoice_def setVoice_def by simp

text \<open>The chord branch, in terms of the bucket of the note's voice.\<close>

lemma placeNote_chord:
  assumes "chord ob"
  shows "placeNote ob part =
    (let vo = getVoice part (voiceNumOf ob) in
     if voice_notes vo = [] then Inl (TypeError ''voice.notes[voice.notes.length-1] is undefined'')
     else case keys (last (voice_notes vo)) of
            None \<Rightarrow> Inl (TypeError ''keys of the last note is undefined'')
          | Some ks \<Rightarrow>
             (case keys ob of
                None \<Rightarrow> Inl (TypeError ''noteObj.keys is undefined'')
              | Some ks' \<Rightarrow>
                 Inr (setVoice (voiceNumOf ob)
                        (vo\<lparr>voice_notes := butlast (voice_notes vo)
                              @ [(last (voice_notes vo))\<lparr>keys := Some (ks @ take 1 ks')\<rparr>]\<rparr>)
                        (snd (snd (noteVoice ob part))))))"
  using assms noteVoice_obj[of ob part]
  unfolding placeNote_def pushChordKey_def Let_def noteVoice_fst getVoice_noteVoice
  by (simp split: option.splits)

lemma placeNote_plain:
  assumes "\<not> chord ob"
  shows "placeNote ob part =
    (let vo = getVoice part (voiceNumOf ob) in
     Inr (setVoice (voiceNumOf ob)
            (addNote (fst (snd (noteVoice ob part)))
               (if voice_notes vo = [] \<and> stave ob \<noteq> None then vo\<lparr>voice_stave := stave ob\<rparr> else vo))
            (snd (snd (noteVoice ob part)))))"
  using assms noteVoice_obj[of ob part]
  unfolding placeNote_def Let_def noteVoice_fst getVoice_noteVoice
  by auto








text \<open>
  No event of a voice is a chord note: a chord note is never added, and a key that is
  pushed leaves the flags of the event as they are.
\<close>

lemma placeNote_no_chord_events:
  assumes "placeNote ob part = Inr part'"
    and "\<forall>i. \<forall>n\<in>set (voice_notes (getVoice part i)). \<not> chord n"
  shows "\<forall>i. \<forall>n\<in>set (voice_notes (getVoice part' i)). \<not> chord n"
proof (cases "chord ob")
  case True
  let ?vo = "getVoice part (voiceNumOf ob)"
  from assms(1) have ne: "voice_notes ?vo \<noteq> []"
    unfolding placeNote_chord[OF True] Let_def by (auto split: if_splits)
  from assms(1) ne obtain ks ks' where
    part': "part' = setVoice (voiceNumOf ob)
                        (?vo\<lparr>voice_notes := butlast (voice_notes ?vo)
                              @ [(last (voice_notes ?vo))\<lparr>keys := Some (ks @ take 1 ks')\<rparr>]\<rparr>)
                        (snd (snd (noteVoice ob part)))"
    unfolding placeNote_chord[OF True] Let_def by (auto split: option.splits)
  have l: "\<not> chord (last (voice_notes ?vo))" using assms(2) ne last_in_set by blast
  have b: "\<forall>n\<in>set (butlast (voice_notes ?vo)). \<not> chord n"
    using assms(2) in_set_butlastD by fast
  show ?thesis
  proof (intro allI ballI)
    fix i n
    assume n: "n \<in> set (voice_notes (getVoice part' i))"
    show "\<not> chord n"
    proof (cases "i = voiceNumOf ob")
      case True
      then show ?thesis using n l b unfolding part' getVoice_setVoice by auto
    next
      case False
      then show ?thesis using n assms(2)
        unfolding part' getVoice_setVoice getVoice_noteVoice by simp
    qed
  qed
next
  case False
  let ?vo = "getVoice part (voiceNumOf ob)"
  let ?vo1 = "if voice_notes ?vo = [] \<and> stave ob \<noteq> None then ?vo\<lparr>voice_stave := stave ob\<rparr> else ?vo"
  have part': "part' = setVoice (voiceNumOf ob) (addNote (fst (snd (noteVoice ob part))) ?vo1)
                         (snd (snd (noteVoice ob part)))"
    using assms(1) unfolding placeNote_plain[OF False] Let_def by simp
  have o: "\<not> chord (fst (snd (noteVoice ob part)))" using False noteVoice_obj[of ob part] by simp
  have v1: "voice_notes ?vo1 = voice_notes ?vo" by simp
  show ?thesis
  proof (intro allI ballI)
    fix i n
    assume n: "n \<in> set (voice_notes (getVoice part' i))"
    show "\<not> chord n"
    proof (cases "i = voiceNumOf ob")
      case True
      then have "n \<in> set (voice_notes ?vo) \<or> n = fst (snd (noteVoice ob part))"
        using n v1 unfolding part' getVoice_setVoice addNote_def by auto
      then show ?thesis using o assms(2) by blast
    next
      case False
      then show ?thesis using n assms(2)
        unfolding part' getVoice_setVoice getVoice_noteVoice by simp
    qed
  qed
qed

lemma notes_no_chord_events:
  "forEach (noteStep R attrs) es part = Inr part' \<Longrightarrow>
   \<forall>i. \<forall>n\<in>set (voice_notes (getVoice part i)). \<not> chord n \<Longrightarrow>
   \<forall>i. \<forall>n\<in>set (voice_notes (getVoice part' i)). \<not> chord n"
proof (induction es arbitrary: part)
  case Nil
  then show ?case by simp
next
  case (Cons e es)
  from forEach_Cons_Inr[OF Cons.prems(1)] obtain p1
    where s: "noteStep R attrs e part = Inr p1" and r: "forEach (noteStep R attrs) es p1 = Inr part'"
    by blast
  from s obtain ob where "placeNote ob part = Inr p1"
    unfolding noteStep_def by (auto split: sum.splits)
  from placeNote_no_chord_events[OF this Cons.prems(2)]
  show ?case by (rule Cons.IH[OF r])
qed

subsection \<open>The time signature of a measure\<close>

lemma setVoice_time: "part_time (setVoice i vo part) = part_time part"
  by (simp add: setVoice_def)

lemma setStave_time: "part_time (setStave s c part) = part_time part"
  by (simp add: setStave_def)

lemma placeNote_time: "placeNote ob part = Inr part' \<Longrightarrow> part_time part' = part_time part"
proof (cases "chord ob")
  case True
  assume "placeNote ob part = Inr part'"
  then show ?thesis unfolding placeNote_chord[OF True] Let_def
    using noteVoice_part[of ob part]
    by (auto simp: setVoice_time split: if_splits option.splits)
next
  case False
  assume "placeNote ob part = Inr part'"
  then show ?thesis unfolding placeNote_plain[OF False] Let_def
    using noteVoice_part[of ob part] by (auto simp: setVoice_time)
qed

lemma noteStep_time: "noteStep R attrs e part = Inr part' \<Longrightarrow> part_time part' = part_time part"
  unfolding noteStep_def by (auto split: sum.splits dest: placeNote_time)

lemma notes_time:
  "forEach (noteStep R attrs) es part = Inr part' \<Longrightarrow> part_time part' = part_time part"
proof (induction es arbitrary: part)
  case Nil
  then show ?case by simp
next
  case (Cons e es)
  from forEach_Cons_Inr[OF Cons.prems] obtain p1
    where "noteStep R attrs e part = Inr p1" and "forEach (noteStep R attrs) es p1 = Inr part'"
    by blast
  then show ?case using Cons.IH noteStep_time by fastforce
qed

lemma compactLoop_time: "part_time (fst (compactLoop part js acc)) = part_time (fst acc)"
  by (induction js arbitrary: acc) (simp_all add: setVoice_time)

lemma compactVoices_time: "part_time (compactVoices part) = part_time part"
  unfolding compactVoices_def Let_def setNumberOfVoices_def
  by (simp add: compactLoop_time)

lemma setStaves_fold_time:
  "part_time (foldl (\<lambda>pt s. setStave s (f s) pt) part ss) = part_time part"
  by (induction ss arbitrary: part) (simp_all add: setStave_time)

lemma setStaves_time: "part_time (setStaves clef n part) = part_time part"
  unfolding setStaves_def
  by (simp add: setStaves_fold_time split: jsval.splits option.splits)

lemma getMeasure_part_time:
  "getMeasure_part R st m t e p = Inr part \<Longrightarrow> part_time part = t"
  unfolding getMeasure_part_def Let_def
  by (auto split: sum.splits dest!: notes_time
      simp: compactVoices_time setStaves_time newPart_def)

lemma getMeasure_parts_time:
  "getMeasure_parts R st m t es p = Inr ps \<Longrightarrow> \<forall>part\<in>set ps. part_time part = t"
proof (induction es arbitrary: p ps)
  case Nil
  then show ?case by simp
next
  case (Cons e es)
  from Cons.prems obtain part ps' where
    a: "getMeasure_part R st m t e p = Inr part"
    and b: "getMeasure_parts R st m t es (Suc p) = Inr ps'"
    and c: "ps = part # ps'"
    by (auto split: sum.splits)
  show ?case using getMeasure_part_time[OF a] Cons.IH[OF b] c by simp
qed

text \<open>Only the divisions and the clef of the attributes reach a decoded note.\<close>

lemma parseNote_attrs:
  assumes "property a1 ''divisions'' = property a2 ''divisions''"
    and "property a1 ''clef'' = property a2 ''clef''"
  shows "parseNote R e a1 = parseNote R e a2"
proof -
  have d: "case_duration R a1 c ob = case_duration R a2 c ob" for c ob
    unfolding case_duration_def using assms(1) by simp
  have "parseNote_elem R a1 c st = parseNote_elem R a2 c st" for c st
    unfolding parseNote_elem_def d ..
  then have el: "parseNote_elem R a1 = parseNote_elem R a2" by (intro ext)
  have r: "restClef a1 ob = restClef a2 ob" for ob
    unfolding restClef_def using assms(2) by simp
  have "parseNote_finish a1 st = parseNote_finish a2 st" for st
    by (simp add: parseNote_finish_def Let_def r)
  then show ?thesis unfolding parseNote_def el by (simp cong: sum.case_cong)
qed

lemma getAttributes_field_cong:
  "(\<forall>i. storedSnapshot st' i p name = storedSnapshot st i p name) \<Longrightarrow>
   getAttributes st' m p name = getAttributes st m p name"
  by (induction m) (simp_all add: getAttributes_0 getAttributes_field_Suc split: option.splits)

lemma getMeasure_part_cong:
  assumes "numStaves st' = numStaves st"
    and "\<forall>i p name. name \<noteq> ''time'' \<longrightarrow> storedSnapshot st' i p name = storedSnapshot st i p name"
  shows "getMeasure_part R st' m t e p = getMeasure_part R st m t e p"
proof -
  have f: "property (getAttributes st' m p) name = property (getAttributes st m p) name"
    if "name \<noteq> ''time''" for name
    unfolding property_def using getAttributes_field_cong[of st' p name st m] assms(2) that by simp
  have d: "property (getAttributes st' m p) ''divisions'' = property (getAttributes st m p) ''divisions''"
    by (rule f) simp
  have c: "property (getAttributes st' m p) ''clef'' = property (getAttributes st m p) ''clef''"
    by (rule f) simp
  have "noteStep R (getAttributes st' m p) x pt = noteStep R (getAttributes st m p) x pt" for x pt
    unfolding noteStep_def parseNote_attrs[OF d c] ..
  then have n: "noteStep R (getAttributes st' m p) = noteStep R (getAttributes st m p)"
    by (intro ext)
  show ?thesis unfolding getMeasure_part_def Let_def n c assms(1) ..
qed

lemma getMeasure_parts_cong:
  assumes "numStaves st' = numStaves st"
    and "\<forall>i p name. name \<noteq> ''time'' \<longrightarrow> storedSnapshot st' i p name = storedSnapshot st i p name"
  shows "getMeasure_parts R st' m t es p = getMeasure_parts R st m t es p"
proof (induction es arbitrary: p)
  case Nil
  show ?case by simp
next
  case (Cons e es)
  have a: "getMeasure_part R st' m t e p = getMeasure_part R st m t e p"
    by (rule getMeasure_part_cong[OF assms])
  have b: "getMeasure_parts R st' m t es (Suc p) = getMeasure_parts R st m t es (Suc p)"
    by (rule Cons.IH)
  show ?case unfolding getMeasure_parts.simps a b ..
qed

text \<open>
  Claim C9: the measure that \<^verbatim>\<open>getMeasure\<close> returns has the time signature 4/4, and so
  has each of its parts, whatever the snapshots hold; and two backends that differ only in
  the \<^verbatim>\<open>time\<close> entries of their snapshots give the same measure.
\<close>

theorem getMeasure_time:
  "(getMeasure RESOLUTION st m = Inr meas \<longrightarrow>
      time meas = \<lparr>num_beats = 4, beat_value = 4\<rparr>
      \<and> (\<forall>part\<in>set (parts meas). part_time part = \<lparr>num_beats = 4, beat_value = 4\<rparr>))
   \<and> (measures st' = measures st \<longrightarrow> numStaves st' = numStaves st \<longrightarrow>
       (\<forall>i p name. name \<noteq> ''time'' \<longrightarrow>
           storedSnapshot st' i p name = storedSnapshot st i p name) \<longrightarrow>
       getMeasure RESOLUTION st' m = getMeasure RESOLUTION st m)"
proof (intro conjI impI)
  assume a: "getMeasure RESOLUTION st m = Inr meas"
  then obtain row ps where
    ps: "getMeasure_parts RESOLUTION st m \<lparr>num_beats = 4, beat_value = 4\<rparr> row 0 = Inr ps"
    and m: "meas = \<lparr>time = \<lparr>num_beats = 4, beat_value = 4\<rparr>, parts = ps\<rparr>"
    unfolding getMeasure_def Let_def by (auto split: option.splits sum.splits)
  show "time meas = \<lparr>num_beats = 4, beat_value = 4\<rparr>" using m by simp
  show "\<forall>part\<in>set (parts meas). part_time part = \<lparr>num_beats = 4, beat_value = 4\<rparr>"
    using getMeasure_parts_time[OF ps] m by simp
next
  assume ms: "measures st' = measures st" and ns: "numStaves st' = numStaves st"
    and sn: "\<forall>i p name. name \<noteq> ''time'' \<longrightarrow>
           storedSnapshot st' i p name = storedSnapshot st i p name"
  have "getMeasure_parts RESOLUTION st' m t row 0 = getMeasure_parts RESOLUTION st m t row 0"
    for t row
    by (rule getMeasure_parts_cong[OF ns sn])
  then show "getMeasure RESOLUTION st' m = getMeasure RESOLUTION st m"
    unfolding getMeasure_def Let_def ms by (simp split: option.splits)
qed

lemma withTime_snapshots:
  "name \<noteq> ''time'' \<Longrightarrow> storedSnapshot withoutTime i p name = storedSnapshot withTime i p name"
  by (simp add: storedSnapshot_def snapshot_def withoutTime_def withTime_def MusicXML_def)

text \<open>
  A measure under the stored time 3/4 is built with the time 4/4, and is the measure built
  when no time is stored.
\<close>

theorem getMeasure_time_witness:
  "storedSnapshot withTime 0 0 ''time''
     = Some (Object [(''num_beats'', Number (Num 3)), (''beat_value'', Number (Num 4))])
   \<and> map_sum id time (getMeasure 16384 withTime 0) = Inr \<lparr>num_beats = 4, beat_value = 4\<rparr>
   \<and> map_sum id (\<lambda>meas. map part_time (parts meas)) (getMeasure 16384 withTime 0)
       = Inr [\<lparr>num_beats = 4, beat_value = 4\<rparr>]
   \<and> getMeasure 16384 withoutTime 0 = getMeasure 16384 withTime 0"
proof -
  have s: "storedSnapshot withTime 0 0 ''time''
     = Some (Object [(''num_beats'', Number (Num 3)), (''beat_value'', Number (Num 4))])"
    by (simp add: storedSnapshot_def snapshot_def withTime_def MusicXML_def)
  have "case getMeasure 16384 withTime 0 of Inl e \<Rightarrow> False | Inr meas \<Rightarrow> length (parts meas) = 1"
    by code_simp
  then obtain meas where g: "getMeasure 16384 withTime 0 = Inr meas"
    and l: "length (parts meas) = 1"
    by (auto split: sum.splits)
  note t = getMeasure_time[of 16384 withTime 0 meas withoutTime]
  have 1: "time meas = \<lparr>num_beats = 4, beat_value = 4\<rparr>" using t g by blast
  have 2: "\<forall>part\<in>set (parts meas). part_time part = \<lparr>num_beats = 4, beat_value = 4\<rparr>"
    using t g by blast
  obtain part where pm: "parts meas = [part]" using l by (cases "parts meas") auto
  have 3: "map part_time (parts meas) = [\<lparr>num_beats = 4, beat_value = 4\<rparr>]"
    using 2 pm by simp
  have m: "measures withoutTime = measures withTime" by (simp add: withoutTime_def)
  have n: "numStaves withoutTime = numStaves withTime" by (simp add: withoutTime_def)
  have 4: "getMeasure 16384 withoutTime 0 = getMeasure 16384 withTime 0"
    using t m n withTime_snapshots by blast
  show ?thesis using s 1 3 4 unfolding g by simp
qed

subsection \<open>Voice compaction\<close>

lemma compactLoop_result:
  "compactLoop part js (np, v) = (np', v') \<Longrightarrow>
     v' = v + length (filter (\<lambda>i. voice_notes (getVoice part (int i)) \<noteq> []) js)
   \<and> (\<forall>j. getVoice np' (int j) =
          (if v \<le> j \<and> j < v'
           then getVoice part (int (filter (\<lambda>i. voice_notes (getVoice part (int i)) \<noteq> []) js ! (j - v)))
           else getVoice np (int j)))"
proof (induction js arbitrary: np v)
  case Nil
  then show ?case by auto
next
  case (Cons i js)
  let ?keep = "\<lambda>i. voice_notes (getVoice part (int i)) \<noteq> []"
  show ?case
  proof (cases "?keep i")
    case False
    then have "compactLoop part js (np, v) = (np', v')" using Cons.prems by simp
    from Cons.IH[OF this] show ?thesis using False by simp
  next
    case True
    let ?np1 = "setVoice (int v) (getVoice part (int i)) np"
    have r: "compactLoop part js (?np1, Suc v) = (np', v')"
      using Cons.prems True by simp
    from Cons.IH[OF r] have A: "v' = Suc v + length (filter ?keep js)"
      and B: "\<And>j. getVoice np' (int j) =
          (if Suc v \<le> j \<and> j < v'
           then getVoice part (int (filter ?keep js ! (j - Suc v)))
           else getVoice ?np1 (int j))"
      by blast+
    have f: "filter ?keep (i # js) = i # filter ?keep js" using True by simp
    have v': "v' = v + length (filter ?keep (i # js))" unfolding f using A by simp
    have "getVoice np' (int j) =
          (if v \<le> j \<and> j < v'
           then getVoice part (int (filter ?keep (i # js) ! (j - v)))
           else getVoice np (int j))" for j
    proof (cases "j = v")
      case True
      have "getVoice np' (int j) = getVoice ?np1 (int j)"
        unfolding B[of j] using True by auto
      also have "\<dots> = getVoice part (int i)"
        unfolding True getVoice_setVoice by simp
      finally show ?thesis unfolding f using True A by simp
    next
      case False
      show ?thesis
      proof (cases "Suc v \<le> j \<and> j < v'")
        case True
        have "getVoice np' (int j) = getVoice part (int (filter ?keep js ! (j - Suc v)))"
          unfolding B[of j] using True by auto
        moreover have "(i # filter ?keep js) ! (j - v) = filter ?keep js ! (j - Suc v)"
          using True by (simp add: nth_Cons')
        ultimately show ?thesis unfolding f using True by simp
      next
        case nin: False
        have "getVoice np' (int j) = getVoice ?np1 (int j)"
          unfolding B[of j] using nin by auto
        also have "\<dots> = getVoice np (int j)"
          unfolding getVoice_setVoice using False by simp
        finally show ?thesis using nin False by auto
      qed
    qed
    with v' show ?thesis by blast
  qed
qed

text \<open>
  The compaction loop keeps, of the voices below the part's number of voices, those that
  have a note, in the order of their ids and as they are (notes and stave).
\<close>

lemma compactVoices_filter:
  "voiceList (compactVoices part) = filter (\<lambda>vo. voice_notes vo \<noteq> []) (voiceList part)"
proof -
  let ?keep = "\<lambda>i. voice_notes (getVoice part (int i)) \<noteq> []"
  let ?js = "[0..<getNumberOfVoices part]"
  obtain np' v' where r: "compactLoop part ?js (part, 0) = (np', v')"
    by (cases "compactLoop part ?js (part, 0)")
  note c = compactLoop_result[OF r]
  have v': "v' = length (filter ?keep ?js)" using c by simp
  have g: "getVoice np' (int j) = getVoice part (int (filter ?keep ?js ! j))" if "j < v'" for j
    using c that by simp
  have cv: "compactVoices part = setNumberOfVoices v' np'"
    unfolding compactVoices_def Let_def r by simp
  have "voiceList (compactVoices part) = map (\<lambda>j. getVoice np' (int j)) [0..<v']"
    unfolding cv voiceList_def getNumberOfVoices_def getVoice_def setNumberOfVoices_def by simp
  also have "\<dots> = map (\<lambda>j. getVoice part (int (filter ?keep ?js ! j))) [0..<v']"
    using g by simp
  also have "\<dots> = map (\<lambda>i. getVoice part (int i))
                      (map (\<lambda>j. filter ?keep ?js ! j) [0..<length (filter ?keep ?js)])"
    unfolding v' by (simp only: map_map comp_def)
  also have "\<dots> = map (\<lambda>i. getVoice part (int i)) (filter ?keep ?js)"
    by (simp only: map_nth)
  also have "\<dots> = filter (\<lambda>vo. voice_notes vo \<noteq> []) (voiceList part)"
    unfolding voiceList_def by (simp add: filter_map comp_def)
  finally show ?thesis .
qed

text \<open>
  Claim C7 says that compaction skips the voice ids whose note sequence is empty and keeps
  all others, so that the raw ids 0, 2 and 5 with a note each compact to three voices. The
  number of voices that the loop scans is set at line 149, which compares the voice of a
  note with \<^verbatim>\<open>numVoices\<close>, a variable that stays 1: a note of voice 2 after a note of
  voice 5 sets the number of voices back to 3. For the document \<open>descendingVoices\<close> the
  measure has two voices, G4 (voice 0) and E4 (voice 2); the note C4 of voice 5 is lost.
\<close>

theorem getMeasure_descendingVoices:
  "measureKeys 16384 descendingVoices 0 = Some [[[Some [''G/4'']], [Some [''E/4'']]]]"
  by code_simp

text \<open>With the voices in ascending order the three voices are there.\<close>

lemma getMeasure_ascendingVoices:
  "measureKeys 16384 ascendingVoices 0
     = Some [[[Some [''G/4'']], [Some [''E/4'']], [Some [''C/4'']]]]"
  by code_simp

end
